theory Spec2Isabelle
  imports
    Complex_Main
    "HOL-Library.Char_ord"
    "HOL-Library.List_Lexorder"
    "HOL-Library.Product_Lexorder"
    "HOL-Library.Monad_Syntax"
begin

section \<open>JavaScript values and the primitives the route modules use\<close>

text \<open>
  Request bodies are parsed JSON, so a body field is one of the values below;
  \<open>JUndefined\<close> is what reading a missing key gives. Numbers are the integers
  (fractions and magnitudes beyond \<open>2^53\<close> are outside the model) and strings are
  lists of code units, ASCII where case or white space matters.
\<close>

datatype jv =
    JUndefined
  | JNull
  | JBool bool
  | JNum int
  | JStr string
  | JArr "jv list"
  | JObj "(string \<times> jv) list"

text \<open>What \<open>parseInt\<close> returns: an integer or \<open>NaN\<close>.\<close>

datatype num = NaN | Num int

fun truthy :: "jv \<Rightarrow> bool" where
  "truthy JUndefined = False"
| "truthy JNull = False"
| "truthy (JBool b) = b"
| "truthy (JNum n) = (n \<noteq> 0)"
| "truthy (JStr s) = (s \<noteq> [])"
| "truthy (JArr xs) = True"
| "truthy (JObj kvs) = True"

fun truthy_num :: "num \<Rightarrow> bool" where
  "truthy_num NaN = False"
| "truthy_num (Num n) = (n \<noteq> 0)"

fun isNaN :: "num \<Rightarrow> bool" where
  "isNaN NaN = True"
| "isNaN (Num n) = False"

text \<open>\<open>x < k\<close> and \<open>x > k\<close> on a number: every comparison with \<open>NaN\<close> is false.\<close>

fun num_lt :: "num \<Rightarrow> int \<Rightarrow> bool" where
  "num_lt NaN k = False"
| "num_lt (Num n) k = (n < k)"

fun num_gt :: "num \<Rightarrow> int \<Rightarrow> bool" where
  "num_gt NaN k = False"
| "num_gt (Num n) k = (n > k)"

fun is_string :: "jv \<Rightarrow> bool" where
  "is_string (JStr s) = True"
| "is_string v = False"

fun isArray :: "jv \<Rightarrow> bool" where
  "isArray (JArr xs) = True"
| "isArray v = False"

text \<open>\<open>typeof v === 'object'\<close>: objects, arrays and \<open>null\<close>.\<close>

fun is_object :: "jv \<Rightarrow> bool" where
  "is_object (JObj kvs) = True"
| "is_object (JArr xs) = True"
| "is_object JNull = True"
| "is_object v = False"

definition is_space :: "char \<Rightarrow> bool" where
  "is_space c = (c \<in> set [CHR '' '', CHR 0x09, CHR 0x0A, CHR 0x0B, CHR 0x0C, CHR 0x0D])"

definition trim :: "string \<Rightarrow> string" where
  "trim s = rev (dropWhile is_space (rev (dropWhile is_space s)))"

definition lower_char :: "char \<Rightarrow> char" where
  "lower_char c =
     (case map_of (zip ''ABCDEFGHIJKLMNOPQRSTUVWXYZ'' ''abcdefghijklmnopqrstuvwxyz'') c of
        Some l \<Rightarrow> l
      | None \<Rightarrow> c)"

definition toLowerCase :: "string \<Rightarrow> string" where
  "toLowerCase s = map lower_char s"

subsection \<open>Numbers to strings and back\<close>

fun show_nat :: "nat \<Rightarrow> string" where
  "show_nat n =
     (if n < 10 then [''0123456789'' ! n]
      else show_nat (n div 10) @ [''0123456789'' ! (n mod 10)])"

definition show_int :: "int \<Rightarrow> string" where
  "show_int i = (if i < 0 then CHR ''-'' # show_nat (nat (- i)) else show_nat (nat i))"

fun index_of :: "char \<Rightarrow> string \<Rightarrow> nat option" where
  "index_of c [] = None"
| "index_of c (d # ds) =
     (if c = d then Some 0 else map_option Suc (index_of c ds))"

definition digit_val :: "nat \<Rightarrow> char \<Rightarrow> nat option" where
  "digit_val radix c = index_of (lower_char c) (take radix ''0123456789abcdef'')"

text \<open>The value of the longest prefix of digits; \<open>None\<close> when there is no digit.\<close>

definition digits_val :: "nat \<Rightarrow> string \<Rightarrow> nat option" where
  "digits_val radix s =
     (let ds = takeWhile (\<lambda>c. digit_val radix c \<noteq> None) s
      in if ds = [] then None
         else Some (foldl (\<lambda>a c. a * radix + the (digit_val radix c)) 0 ds))"

text \<open>
  \<open>parseInt(s)\<close> with no radix: leading white space is skipped, a sign is read, a
  \<open>0x\<close> or \<open>0X\<close> prefix selects base 16, and the digits that follow are read up to
  the first character that is not one.
\<close>

definition parseInt_str :: "string \<Rightarrow> num" where
  "parseInt_str s =
     (let s1 = dropWhile is_space s;
          neg = (take 1 s1 = ''-'');
          s2 = (if take 1 s1 = ''-'' \<or> take 1 s1 = ''+'' then drop 1 s1 else s1);
          hex = (take 2 s2 = ''0x'' \<or> take 2 s2 = ''0X'');
          r = (if hex then digits_val 16 (drop 2 s2) else digits_val 10 s2)
      in case r of
           None \<Rightarrow> NaN
         | Some n \<Rightarrow> Num (if neg then - int n else int n))"

fun intercalate :: "string \<Rightarrow> string list \<Rightarrow> string" where
  "intercalate sep [] = []"
| "intercalate sep [x] = x"
| "intercalate sep (x # y # ys) = x @ sep @ intercalate sep (y # ys)"

fun sequence :: "'a option list \<Rightarrow> 'a list option" where
  "sequence [] = Some []"
| "sequence (None # xs) = None"
| "sequence (Some x # xs) = map_option ((#) x) (sequence xs)"

text \<open>
  The string of a value (\<open>ToString\<close>, and \<open>v.toString()\<close> for a \<open>v\<close> that is neither
  \<open>null\<close> nor \<open>undefined\<close>). \<open>None\<close> is a thrown \<open>TypeError\<close>: a parsed JSON object
  that has a key \<open>toString\<close> of its own shadows the inherited method with a value
  that cannot be called.
\<close>

fun toString :: "jv \<Rightarrow> string option" where
  "toString JUndefined = Some ''undefined''"
| "toString JNull = Some ''null''"
| "toString (JBool b) = Some (if b then ''true'' else ''false'')"
| "toString (JNum n) = Some (show_int n)"
| "toString (JStr s) = Some s"
| "toString (JArr xs) =
     map_option (intercalate '','')
       (sequence (map (\<lambda>x. if x = JUndefined \<or> x = JNull then Some [] else toString x) xs))"
| "toString (JObj kvs) =
     (if ''toString'' \<in> set (map fst kvs) then None else Some ''[object Object]'')"

text \<open>\<open>parseInt(v)\<close> on a body field: \<open>None\<close> when converting \<open>v\<close> to a string throws.\<close>

definition parseInt :: "jv \<Rightarrow> num option" where
  "parseInt v =
     (case v of
        JNum n \<Rightarrow> Some (Num n)
      | _ \<Rightarrow> map_option parseInt_str (toString v))"

text \<open>\<open>v?.toString().trim()\<close>.\<close>

definition toString_trim :: "jv \<Rightarrow> jv option" where
  "toString_trim v =
     (if v = JUndefined \<or> v = JNull then Some JUndefined
      else map_option (\<lambda>s. JStr (trim s)) (toString v))"

text \<open>\<open>a || b\<close> on values.\<close>

definition or_else :: "jv \<Rightarrow> jv \<Rightarrow> jv" where
  "or_else a b = (if truthy a then a else b)"

text \<open>\<open>parseInt(q) || d\<close> on a query parameter, which is a string or absent.\<close>

definition parseInt_or :: "string option \<Rightarrow> int \<Rightarrow> int" where
  "parseInt_or q d =
     (case (case q of None \<Rightarrow> NaN | Some s \<Rightarrow> parseInt_str s) of
        NaN \<Rightarrow> d
      | Num n \<Rightarrow> if n = 0 then d else n)"

text \<open>\<open>Math.ceil(a / b)\<close> on integers, \<open>b\<close> not zero.\<close>

definition ceil_div :: "int \<Rightarrow> int \<Rightarrow> int" where
  "ceil_div a b = - ((- a) div b)"

subsection \<open>The runtime and the driver\<close>

text \<open>
  What the handlers take from outside the repository: the clock, \<open>Date\<close> parsing,
  the \<open>URL\<close> parser, the \<open>RegExp\<close> constructor (with flag \<open>i\<close>; \<open>None\<close> when it
  throws \<open>SyntaxError\<close>, otherwise the predicate "the expression matches somewhere
  in the string"), and the driver's \<open>ObjectId\<close> (\<open>isValid\<close>, and the hexadecimal
  string of \<open>new ObjectId(v)\<close>, \<open>None\<close> when the constructor throws).
\<close>

record runtime =
  nowMs :: int
  fullYear :: int
  dateTime :: "jv \<Rightarrow> int option"
  urlParses :: "string \<Rightarrow> bool"
  regExp :: "string \<Rightarrow> (string \<Rightarrow> bool) option"
  oidValid :: "jv \<Rightarrow> bool"
  oidNew :: "jv \<Rightarrow> string option"

definition isValidUrl :: "runtime \<Rightarrow> string \<Rightarrow> bool" where
  "isValidUrl rt s = urlParses rt s"

section \<open>The document store\<close>

text \<open>
  A collection is the list of its documents in natural (insertion) order, each
  the hexadecimal string of its \<open>_id\<close> with its fields. \<open>None\<close> is an error of
  the server, which the handler's \<open>catch\<close> turns into a 500.
\<close>

type_synonym 'a coll = "(string \<times> 'a) list"

definition findOne :: "('d \<Rightarrow> bool) \<Rightarrow> 'd list \<Rightarrow> 'd option" where
  "findOne p docs = List.find p docs"

definition findById :: "string \<Rightarrow> 'a coll \<Rightarrow> (string \<times> 'a) option" where
  "findById oid docs = findOne (\<lambda>d. fst d = oid) docs"

definition countDocuments :: "('d \<Rightarrow> bool) \<Rightarrow> 'd list \<Rightarrow> int" where
  "countDocuments p docs = int (length (filter p docs))"

text \<open>\<open>insertOne\<close> with the \<open>_id\<close> the driver generated: a duplicate key is an error.\<close>

definition insertOne :: "string \<Rightarrow> 'a \<Rightarrow> 'a coll \<Rightarrow> 'a coll option" where
  "insertOne oid x docs =
     (if oid \<in> set (map fst docs) then None else Some (docs @ [(oid, x)]))"

text \<open>\<open>updateOne({_id: oid}, ...)\<close>: \<open>None\<close> when \<open>matchedCount\<close> is 0.\<close>

fun updateOne :: "string \<Rightarrow> ('a \<Rightarrow> 'a) \<Rightarrow> 'a coll \<Rightarrow> 'a coll option" where
  "updateOne oid f [] = None"
| "updateOne oid f (d # ds) =
     (if fst d = oid then Some ((fst d, f (snd d)) # ds)
      else map_option ((#) d) (updateOne oid f ds))"

text \<open>\<open>deleteOne({_id: oid})\<close>: \<open>None\<close> when \<open>deletedCount\<close> is 0.\<close>

fun deleteOne :: "string \<Rightarrow> 'a coll \<Rightarrow> 'a coll option" where
  "deleteOne oid [] = None"
| "deleteOne oid (d # ds) =
     (if fst d = oid then Some ds else map_option ((#) d) (deleteOne oid ds))"

text \<open>
  The \<open>skip\<close> and \<open>limit\<close> options of \<open>find\<close>: the server refuses a negative
  \<open>skip\<close>; a \<open>limit\<close> of 0 is no limit, and the driver sends a negative \<open>limit\<close>
  as its absolute value.
\<close>

definition find_page :: "int \<Rightarrow> int \<Rightarrow> 'd list \<Rightarrow> 'd list option" where
  "find_page skip limit docs =
     (if skip < 0 then None
      else if limit = 0 then Some (drop (nat skip) docs)
      else Some (take (nat \<bar>limit\<bar>) (drop (nat skip) docs)))"

text \<open>
  A field equals a value in a query when it is that value or an array that has it
  as an element; a regular expression matches a string field, or an array field
  with a string element it matches.
\<close>

definition field_eq :: "jv \<Rightarrow> jv \<Rightarrow> bool" where
  "field_eq field v =
     (field = v \<or> (case field of JArr xs \<Rightarrow> v \<in> set xs | _ \<Rightarrow> False))"

definition field_matches :: "(string \<Rightarrow> bool) \<Rightarrow> jv \<Rightarrow> bool" where
  "field_matches m field =
     (case field of
        JStr s \<Rightarrow> m s
      | JArr xs \<Rightarrow> list_ex (\<lambda>x. case x of JStr s \<Rightarrow> m s | _ \<Rightarrow> False) xs
      | _ \<Rightarrow> False)"

text \<open>
  The order of a sort: \<open>null\<close> and missing first, then numbers (\<open>NaN\<close> lowest),
  strings by code unit, objects, arrays, booleans, dates. Arrays and objects are
  not compared among themselves. Ties keep the natural order; \<open>-1\<close> reverses.
\<close>

type_synonym sort_key = "nat \<times> int \<times> string"

fun key_jv :: "jv \<Rightarrow> sort_key" where
  "key_jv JUndefined = (0, 0, [])"
| "key_jv JNull = (0, 0, [])"
| "key_jv (JNum n) = (2, n, [])"
| "key_jv (JStr s) = (3, 0, s)"
| "key_jv (JObj kvs) = (4, 0, [])"
| "key_jv (JArr xs) = (5, 0, [])"
| "key_jv (JBool b) = (6, (if b then 1 else 0), [])"

fun key_num :: "num \<Rightarrow> sort_key" where
  "key_num NaN = (1, 0, [])"
| "key_num (Num n) = (2, n, [])"

definition key_date :: "int \<Rightarrow> sort_key" where
  "key_date t = (7, t, [])"

definition key_opt_date :: "int option \<Rightarrow> sort_key" where
  "key_opt_date t = (case t of None \<Rightarrow> (0, 0, []) | Some ms \<Rightarrow> key_date ms)"

definition order_by :: "('d \<Rightarrow> sort_key) \<Rightarrow> bool \<Rightarrow> 'd list \<Rightarrow> 'd list" where
  "order_by key desc docs = (if desc then rev (sort_key key docs) else sort_key key docs)"

section \<open>Responses\<close>

record pagination =
  currentPage :: int
  totalPages :: int
  totalItems :: int
  hasNext :: bool
  hasPrev :: bool

text \<open>
  The JSON bodies the handlers send: \<open>{error, message}\<close>, the same with
  \<open>details\<close>, a page with its \<open>pagination\<close>, a bare array, \<open>{message, <entity>}\<close>
  (the entity is \<open>null\<close> when the re-fetch finds nothing), \<open>{message}\<close>, and no
  body.
\<close>

datatype 'd body =
    Error string string
  | ErrorDetails string string "string list"
  | Listing "'d list" pagination
  | Documents "'d list"
  | Created string "'d option"
  | Message string
  | NoBody

type_synonym 'd response = "nat \<times> 'd body"

definition internal_error :: "string \<Rightarrow> 'd response" where
  "internal_error message = (500, Error ''Internal server error'' message)"

definition validation_failed :: "string list \<Rightarrow> 'd response" where
  "validation_failed validationErrors =
     (400, ErrorDetails ''Validation failed'' ''Please correct the following errors''
             validationErrors)"

text \<open>
  The filter a listing builds from a query parameter \<open>p\<close> with
  \<open>if (p) query.field = new RegExp(p, 'i')\<close>: no condition when \<open>p\<close> is absent or
  empty; \<open>None\<close> when the constructor throws.
\<close>

definition regexp_filter :: "runtime \<Rightarrow> string option \<Rightarrow> (jv \<Rightarrow> bool) option" where
  "regexp_filter rt p =
     (case p of
        None \<Rightarrow> Some (\<lambda>field. True)
      | Some s \<Rightarrow>
          if s = [] then Some (\<lambda>field. True)
          else map_option field_matches (regExp rt s))"

definition page_info :: "int \<Rightarrow> int \<Rightarrow> int \<Rightarrow> pagination" where
  "page_info page limit totalCount =
     \<lparr> currentPage = page,
       totalPages = ceil_div totalCount limit,
       totalItems = totalCount,
       hasNext = (page * limit < totalCount),
       hasPrev = (page > 1) \<rparr>"

text \<open>Helpers of the validators.\<close>

text \<open>\<open>!x || typeof x !== 'string' || x.trim().length === 0\<close>.\<close>

definition blank :: "jv \<Rightarrow> bool" where
  "blank x =
     (\<not> truthy x \<or> \<not> is_string x \<or> (case x of JStr s \<Rightarrow> length (trim s) = 0 | _ \<Rightarrow> True))"

text \<open>\<open>x.trim().length\<close> and \<open>x.length\<close>, read only where \<open>x\<close> is known to be a string.\<close>

definition trim_length :: "jv \<Rightarrow> nat" where
  "trim_length x = (case x of JStr s \<Rightarrow> length (trim s) | _ \<Rightarrow> 0)"

definition str_length :: "jv \<Rightarrow> nat" where
  "str_length x = (case x of JStr s \<Rightarrow> length s | _ \<Rightarrow> 0)"

definition the_str :: "jv \<Rightarrow> string" where
  "the_str x = (case x of JStr s \<Rightarrow> s | _ \<Rightarrow> [])"

fun indexOf :: "'a list \<Rightarrow> 'a \<Rightarrow> nat" where
  "indexOf [] x = 0"
| "indexOf (y # ys) x = (if y = x then 0 else Suc (indexOf ys x))"

text \<open>\<open>xs.filter((item, index) => xs.indexOf(item) !== index)\<close>.\<close>

definition duplicates :: "'a list \<Rightarrow> 'a list" where
  "duplicates xs = map snd (filter (\<lambda>(index, item). indexOf xs item \<noteq> index) (enumerate 0 xs))"

section \<open>The database\<close>

record artist =
  artist_name :: jv
  artist_genre :: jv
  artist_country :: jv
  artist_formed_year :: num
  artist_members :: jv
  artist_biography :: jv
  artist_website :: jv
  artist_social_media :: jv
  artist_createdAt :: "int option"
  artist_updatedAt :: int

record album =
  album_title :: jv
  album_artist_id :: jv
  album_release_date :: jv
  album_genre :: jv
  album_track_count :: num
  album_duration :: num
  album_record_label :: jv
  album_cover_image_url :: jv
  album_createdAt :: "int option"
  album_updatedAt :: int

text \<open>\<open>song_track_number\<close> is \<open>None\<close> for \<open>null\<close>.\<close>

record song =
  song_title :: jv
  song_album_id :: jv
  song_artist_id :: jv
  song_duration :: num
  song_track_number :: "num option"
  song_genre :: jv
  song_lyrics :: jv
  song_audio_url :: jv
  song_featured_artists :: "jv list"
  song_createdAt :: "int option"
  song_updatedAt :: int

record playlist =
  playlist_name :: jv
  playlist_creator_name :: jv
  playlist_description :: jv
  playlist_songs :: "jv list"
  playlist_tags :: "jv list"
  playlist_is_public :: bool
  playlist_cover_image_url :: jv
  playlist_createdAt :: "int option"
  playlist_updatedAt :: int

record db =
  artists :: "artist coll"
  albums :: "album coll"
  songs :: "song coll"
  playlists :: "playlist coll"

text \<open>
  \<open>req.query\<close> and \<open>req.body\<close>: a query parameter is a string or absent (a
  parameter repeated in the URL is outside the model), a body field is a JSON
  value or absent. The server listens only once \<open>initDb\<close> has succeeded, so that
  \<open>getDb()\<close> returns the database in every handler.
\<close>

type_synonym query = "string \<Rightarrow> string option"
type_synonym reqbody = "string \<Rightarrow> jv"

section \<open>middleware/auth.js\<close>

text \<open>
  \<open>requireAuth\<close> stands before the handlers of every \<open>POST\<close>, \<open>PUT\<close> and
  \<open>DELETE\<close>: \<open>None\<close> is \<open>next()\<close>, with which the handler runs, and otherwise the
  request ends with the 401. The handlers below are the functions that run
  after it.
\<close>

definition requireAuth :: "bool \<Rightarrow> bool \<Rightarrow> unit response option" where
  "requireAuth isDemoMode has_user =
     (if isDemoMode then None
      else if \<not> has_user
      then Some (401, Error ''Authentication required'' ''Please log in to access this resource'')
      else None)"

section \<open>routes/artists.js\<close>

text \<open>
  The check of one element of \<open>members\<close> (and of \<open>tags\<close>) in the validators'
  loops; \<open>i\<close> counts from 0.
\<close>

definition member_errors :: "nat \<times> jv \<Rightarrow> string list" where
  "member_errors im =
     (case im of (i, m) \<Rightarrow>
        if blank m then [''Member '' @ show_nat (i + 1) @ '' must be a non-empty string'']
        else if trim_length m > 100
        then [''Member '' @ show_nat (i + 1) @ '' name must be less than 100 characters'']
        else [])"

text \<open>
  \<open>validateArtist\<close>. \<open>None\<close> is the \<open>TypeError\<close> of \<open>m.trim()\<close> in the duplicate
  check, thrown when an element of \<open>members\<close> is not a string.
\<close>

definition validateArtist :: "runtime \<Rightarrow> artist \<Rightarrow> string list option" where
  "validateArtist rt artist =
     (let name_errors =
            (if blank (artist_name artist)
             then [''Artist name is required and must be a non-empty string'']
             else if trim_length (artist_name artist) > 100
             then [''Artist name must be less than 100 characters'']
             else []);
          genre_errors =
            (if blank (artist_genre artist)
             then [''Genre is required and must be a non-empty string'']
             else if trim_length (artist_genre artist) > 50
             then [''Genre must be less than 50 characters'']
             else []);
          country_errors =
            (if blank (artist_country artist)
             then [''Country is required and must be a non-empty string'']
             else if trim_length (artist_country artist) > 50
             then [''Country must be less than 50 characters'']
             else []);
          year_errors =
            (if \<not> truthy_num (artist_formed_year artist) \<or> isNaN (artist_formed_year artist)
                \<or> num_lt (artist_formed_year artist) 1900
                \<or> num_gt (artist_formed_year artist) (fullYear rt)
             then [''Valid formed year is required (1900 - '' @ show_int (fullYear rt) @ '')'']
             else []);
          biography_errors =
            (if truthy (artist_biography artist)
                \<and> (\<not> is_string (artist_biography artist)
                     \<or> str_length (artist_biography artist) > 2000)
             then [''Biography must be a string with maximum 2000 characters'']
             else []);
          website_errors =
            (if truthy (artist_website artist)
                \<and> (\<not> is_string (artist_website artist)
                     \<or> \<not> isValidUrl rt (the_str (artist_website artist)))
             then [''Website must be a valid URL'']
             else []);
          social_errors =
            (if truthy (artist_social_media artist) \<and> \<not> is_object (artist_social_media artist)
             then [''Social media must be an object'']
             else [])
      in do {
        members_errors \<leftarrow>
          (case artist_members artist of
             JArr members \<Rightarrow>
               if length members = 0 then Some [''At least one member is required'']
               else if list_all is_string members
               then Some (concat (map member_errors (enumerate 0 members))
                      @ (if length (duplicates (map (\<lambda>m. toLowerCase (trim (the_str m))) members)) > 0
                         then [''Duplicate member names are not allowed'']
                         else []))
               else None
           | _ \<Rightarrow> Some [''At least one member is required'']);
        Some (name_errors @ genre_errors @ country_errors @ year_errors @ members_errors
                @ biography_errors @ website_errors @ social_errors)
      })"

text \<open>The query and the sort of \<open>GET /artists\<close>.\<close>

definition artists_query :: "runtime \<Rightarrow> query \<Rightarrow> (string \<times> artist \<Rightarrow> bool) option" where
  "artists_query rt q =
     do {
       genre \<leftarrow> regexp_filter rt (q ''genre'');
       country \<leftarrow> regexp_filter rt (q ''country'');
       Some (\<lambda>d. genre (artist_genre (snd d)) \<and> country (artist_country (snd d)))
     }"

definition artist_sort_key :: "string \<Rightarrow> string \<times> artist \<Rightarrow> sort_key" where
  "artist_sort_key sortField d =
     (if sortField = ''name'' then key_jv (artist_name (snd d))
      else if sortField = ''genre'' then key_jv (artist_genre (snd d))
      else if sortField = ''country'' then key_jv (artist_country (snd d))
      else if sortField = ''formed_year'' then key_num (artist_formed_year (snd d))
      else key_opt_date (artist_createdAt (snd d)))"

definition artists_sort :: "query \<Rightarrow> (string \<times> artist) list \<Rightarrow> (string \<times> artist) list" where
  "artists_sort q docs =
     (case q ''sortBy'' of
        None \<Rightarrow> docs
      | Some sortField \<Rightarrow>
          if sortField \<noteq> []
             \<and> sortField \<in> set [''name'', ''genre'', ''country'', ''formed_year'', ''createdAt'']
          then order_by (artist_sort_key sortField) (q ''sortOrder'' = Some ''desc'') docs
          else docs)"

text \<open>\<open>GET /artists\<close>.\<close>

definition artists_get_all :: "runtime \<Rightarrow> db \<Rightarrow> query \<Rightarrow> (string \<times> artist) response" where
  "artists_get_all rt database q =
     (case artists_query rt q of
        None \<Rightarrow> internal_error ''Failed to fetch artists''
      | Some query \<Rightarrow>
          let page = parseInt_or (q ''page'') 1;
              limit = parseInt_or (q ''limit'') 10
          in if limit > 100
             then (400, Error ''Invalid limit'' ''Limit cannot exceed 100 items per page'')
             else
               let skip = (page - 1) * limit
               in case find_page skip limit (artists_sort q (filter query (artists database))) of
                    None \<Rightarrow> internal_error ''Failed to fetch artists''
                  | Some found \<Rightarrow>
                      let totalCount = countDocuments query (artists database)
                      in (200, Listing found (page_info page limit totalCount)))"

text \<open>The sanitised record of \<open>POST /artists\<close>; \<open>None\<close> when a \<open>toString\<close> throws.\<close>

definition artists_post_data :: "runtime \<Rightarrow> reqbody \<Rightarrow> artist option" where
  "artists_post_data rt body =
     do {
       name \<leftarrow> toString_trim (body ''name'');
       genre \<leftarrow> toString_trim (body ''genre'');
       country \<leftarrow> toString_trim (body ''country'');
       formed_year \<leftarrow> parseInt (body ''formed_year'');
       members \<leftarrow>
         (case body ''members'' of
            JArr ms \<Rightarrow> map_option (filter truthy) (sequence (map toString_trim ms))
          | _ \<Rightarrow> Some []);
       biography \<leftarrow> toString_trim (body ''biography'');
       website \<leftarrow> toString_trim (body ''website'');
       Some \<lparr> artist_name = name,
              artist_genre = genre,
              artist_country = country,
              artist_formed_year = formed_year,
              artist_members = JArr members,
              artist_biography = or_else biography (JStr []),
              artist_website = or_else website (JStr []),
              artist_social_media =
                (if truthy (body ''social_media'') \<and> is_object (body ''social_media'')
                 then body ''social_media'' else JObj []),
              artist_createdAt = Some (nowMs rt),
              artist_updatedAt = nowMs rt \<rparr>
     }"

text \<open>
  \<open>POST /artists\<close>, after \<open>requireAuth\<close>. \<open>insertedId\<close> is the \<open>_id\<close> the driver
  generates for the new document.
\<close>

definition artists_post ::
  "runtime \<Rightarrow> string \<Rightarrow> db \<Rightarrow> reqbody \<Rightarrow> (string \<times> artist) response \<times> db" where
  "artists_post rt insertedId database body =
     (case artists_post_data rt body of
        None \<Rightarrow> (internal_error ''Failed to create artist'', database)
      | Some artistData \<Rightarrow>
     (case validateArtist rt artistData of
        None \<Rightarrow> (internal_error ''Failed to create artist'', database)
      | Some validationErrors \<Rightarrow>
     if length validationErrors > 0 then (validation_failed validationErrors, database)
     else
     (case Option.bind (toString (artist_name artistData))
             (\<lambda>name. regExp rt (''^'' @ name @ ''$'')) of
        None \<Rightarrow> (internal_error ''Failed to create artist'', database)
      | Some name_re \<Rightarrow>
     (case findOne (\<lambda>d. field_matches name_re (artist_name (snd d))) (artists database) of
        Some existingArtist \<Rightarrow>
          ((409, Error ''Artist already exists''
                   ''An artist with this name already exists in the database''), database)
      | None \<Rightarrow>
     (case insertOne insertedId artistData (artists database) of
        None \<Rightarrow> (internal_error ''Failed to create artist'', database)
      | Some inserted \<Rightarrow>
          ((201, Created ''Artist created successfully'' (findById insertedId inserted)),
           database\<lparr>artists := inserted\<rparr>))))))"

text \<open>\<open>$set: artistData\<close> of the update: every field but \<open>createdAt\<close>.\<close>

definition set_artist :: "artist \<Rightarrow> artist \<Rightarrow> artist" where
  "set_artist artistData old = artistData\<lparr>artist_createdAt := artist_createdAt old\<rparr>"

text \<open>\<open>PUT /artists/:id\<close>, after \<open>requireAuth\<close>.\<close>

definition artists_put ::
  "runtime \<Rightarrow> db \<Rightarrow> string \<Rightarrow> reqbody \<Rightarrow> (string \<times> artist) response \<times> db" where
  "artists_put rt database param_id body =
     (if \<not> oidValid rt (JStr param_id)
      then ((400, Error ''Invalid artist ID format'' ''Please provide a valid MongoDB ObjectId''),
            database)
      else
     (case parseInt (body ''formed_year'') of
        None \<Rightarrow> (internal_error ''Failed to update artist'', database)
      | Some formed_year \<Rightarrow>
     let artistData =
           \<lparr> artist_name = body ''name'',
             artist_genre = body ''genre'',
             artist_country = body ''country'',
             artist_formed_year = formed_year,
             artist_members = body ''members'',
             artist_biography = or_else (body ''biography'') (JStr []),
             artist_website = or_else (body ''website'') (JStr []),
             artist_social_media = or_else (body ''social_media'') (JObj []),
             artist_createdAt = None,
             artist_updatedAt = nowMs rt \<rparr>
     in
     (case validateArtist rt artistData of
        None \<Rightarrow> (internal_error ''Failed to update artist'', database)
      | Some validationErrors \<Rightarrow>
     if length validationErrors > 0 then (validation_failed validationErrors, database)
     else
     (case oidNew rt (JStr param_id) of
        None \<Rightarrow> (internal_error ''Failed to update artist'', database)
      | Some oid \<Rightarrow>
     (case updateOne oid (set_artist artistData) (artists database) of
        None \<Rightarrow>
          ((404, Error ''Artist not found'' ''No artist exists with the provided ID''), database)
      | Some updated \<Rightarrow> ((204, NoBody), database\<lparr>artists := updated\<rparr>))))))"

text \<open>\<open>DELETE /artists/:id\<close>, after \<open>requireAuth\<close>.\<close>

definition artists_delete ::
  "runtime \<Rightarrow> db \<Rightarrow> string \<Rightarrow> (string \<times> artist) response \<times> db" where
  "artists_delete rt database param_id =
     (if \<not> oidValid rt (JStr param_id)
      then ((400, Error ''Invalid artist ID format'' ''Please provide a valid MongoDB ObjectId''),
            database)
      else
        let albumsCount =
              countDocuments (\<lambda>d. field_eq (album_artist_id (snd d)) (JStr param_id)) (albums database)
        in if albumsCount > 0
           then ((400, Error ''Cannot delete artist''
                         (''Artist has '' @ show_int albumsCount
                            @ '' album(s) associated. Please delete albums first.'')),
                 database)
           else
             (case oidNew rt (JStr param_id) of
                None \<Rightarrow> (internal_error ''Failed to delete artist'', database)
              | Some oid \<Rightarrow>
             (case deleteOne oid (artists database) of
                None \<Rightarrow>
                  ((404, Error ''Artist not found'' ''No artist exists with the provided ID''),
                   database)
              | Some remaining \<Rightarrow>
                  ((200, Message ''Artist deleted successfully''),
                   database\<lparr>artists := remaining\<rparr>))))"

section \<open>routes/albums.js\<close>

text \<open>
  \<open>validateAlbum\<close>. \<open>new Date('1900-01-01')\<close> is 2208988800000 ms before the
  epoch.
\<close>

definition validateAlbum :: "runtime \<Rightarrow> album \<Rightarrow> string list" where
  "validateAlbum rt album =
     (if blank (album_title album)
      then [''Album title is required and must be a non-empty string'']
      else if trim_length (album_title album) > 200
      then [''Album title must be less than 200 characters'']
      else [])
     @ (if \<not> truthy (album_artist_id album) \<or> \<not> oidValid rt (album_artist_id album)
        then [''Valid artist ID is required'']
        else [])
     @ (if \<not> truthy (album_release_date album) then [''Release date is required'']
        else
          (case dateTime rt (album_release_date album) of
             None \<Rightarrow> [''Valid release date is required (YYYY-MM-DD format)'']
           | Some date \<Rightarrow>
               if date > nowMs rt then [''Release date cannot be in the future'']
               else if date < - 2208988800000 then [''Release date cannot be before 1900'']
               else []))
     @ (if blank (album_genre album)
        then [''Genre is required and must be a non-empty string'']
        else if trim_length (album_genre album) > 50
        then [''Genre must be less than 50 characters'']
        else [])
     @ (if \<not> truthy_num (album_track_count album) \<or> isNaN (album_track_count album)
           \<or> num_lt (album_track_count album) 1
        then [''Valid track count is required (minimum 1)'']
        else if num_gt (album_track_count album) 200
        then [''Track count cannot exceed 200'']
        else [])
     @ (if \<not> truthy_num (album_duration album) \<or> isNaN (album_duration album)
           \<or> num_lt (album_duration album) 1
        then [''Valid duration in minutes is required (minimum 1)'']
        else if num_gt (album_duration album) 600
        then [''Duration cannot exceed 600 minutes (10 hours)'']
        else [])
     @ (if truthy (album_record_label album)
           \<and> (\<not> is_string (album_record_label album)
                \<or> str_length (album_record_label album) > 100)
        then [''Record label must be a string with maximum 100 characters'']
        else [])
     @ (if truthy (album_cover_image_url album)
           \<and> (\<not> is_string (album_cover_image_url album)
                \<or> \<not> isValidUrl rt (the_str (album_cover_image_url album)))
        then [''Cover image URL must be a valid URL'']
        else [])"

text \<open>
  The filters of the listings on a reference field and on a number:
  \<open>if (p && ObjectId.isValid(p)) query.field = p\<close>, and
  \<open>const n = parseInt(p); if (!isNaN(n)) ...\<close> under \<open>if (p)\<close>.
\<close>

definition id_filter :: "runtime \<Rightarrow> string option \<Rightarrow> jv \<Rightarrow> bool" where
  "id_filter rt p field =
     (case p of
        None \<Rightarrow> True
      | Some s \<Rightarrow> if s \<noteq> [] \<and> oidValid rt (JStr s) then field_eq field (JStr s) else True)"

definition parsed_param :: "string option \<Rightarrow> int option" where
  "parsed_param p =
     (case p of
        None \<Rightarrow> None
      | Some s \<Rightarrow>
          if s = [] then None
          else (case parseInt_str s of NaN \<Rightarrow> None | Num n \<Rightarrow> Some n))"

text \<open>
  \<open>release_date: {$gte: `${year}-01-01`, $lte: `${year}-12-31`}\<close>: a range
  between strings matches string fields only, and an array field when one string
  element meets both bounds or two elements meet one each.
\<close>

definition string_range :: "string \<Rightarrow> string \<Rightarrow> jv \<Rightarrow> bool" where
  "string_range lo hi field =
     (case field of
        JStr s \<Rightarrow> lo \<le> s \<and> s \<le> hi
      | JArr xs \<Rightarrow>
          list_ex (\<lambda>x. case x of JStr s \<Rightarrow> lo \<le> s | _ \<Rightarrow> False) xs
          \<and> list_ex (\<lambda>x. case x of JStr s \<Rightarrow> s \<le> hi | _ \<Rightarrow> False) xs
      | _ \<Rightarrow> False)"

definition albums_query :: "runtime \<Rightarrow> query \<Rightarrow> (string \<times> album \<Rightarrow> bool) option" where
  "albums_query rt q =
     do {
       genre \<leftarrow> regexp_filter rt (q ''genre'');
       Some (\<lambda>d. genre (album_genre (snd d))
                \<and> id_filter rt (q ''artist_id'') (album_artist_id (snd d))
                \<and> (case parsed_param (q ''year'') of
                      None \<Rightarrow> True
                    | Some year \<Rightarrow>
                        string_range (show_int year @ ''-01-01'') (show_int year @ ''-12-31'')
                          (album_release_date (snd d))))
     }"

definition album_sort_key :: "string \<Rightarrow> string \<times> album \<Rightarrow> sort_key" where
  "album_sort_key sortField d =
     (if sortField = ''title'' then key_jv (album_title (snd d))
      else if sortField = ''genre'' then key_jv (album_genre (snd d))
      else if sortField = ''release_date'' then key_jv (album_release_date (snd d))
      else if sortField = ''track_count'' then key_num (album_track_count (snd d))
      else if sortField = ''duration'' then key_num (album_duration (snd d))
      else key_opt_date (album_createdAt (snd d)))"

definition albums_sort :: "query \<Rightarrow> (string \<times> album) list \<Rightarrow> (string \<times> album) list" where
  "albums_sort q docs =
     (case q ''sortBy'' of
        None \<Rightarrow> docs
      | Some sortField \<Rightarrow>
          if sortField \<noteq> []
             \<and> sortField \<in> set [''title'', ''genre'', ''release_date'', ''track_count'',
                                  ''duration'', ''createdAt'']
          then order_by (album_sort_key sortField) (q ''sortOrder'' = Some ''desc'') docs
          else docs)"

text \<open>\<open>GET /albums\<close>.\<close>

definition albums_get_all :: "runtime \<Rightarrow> db \<Rightarrow> query \<Rightarrow> (string \<times> album) response" where
  "albums_get_all rt database q =
     (case albums_query rt q of
        None \<Rightarrow> internal_error ''Failed to fetch albums''
      | Some query \<Rightarrow>
          let page = parseInt_or (q ''page'') 1;
              limit = parseInt_or (q ''limit'') 10
          in if limit > 100
             then (400, Error ''Invalid limit'' ''Limit cannot exceed 100 items per page'')
             else
               let skip = (page - 1) * limit
               in case find_page skip limit (albums_sort q (filter query (albums database))) of
                    None \<Rightarrow> internal_error ''Failed to fetch albums''
                  | Some found \<Rightarrow>
                      let totalCount = countDocuments query (albums database)
                      in (200, Listing found (page_info page limit totalCount)))"

definition albums_post_data :: "runtime \<Rightarrow> reqbody \<Rightarrow> album option" where
  "albums_post_data rt body =
     do {
       title \<leftarrow> toString_trim (body ''title'');
       artist_id \<leftarrow> toString_trim (body ''artist_id'');
       release_date \<leftarrow> toString_trim (body ''release_date'');
       genre \<leftarrow> toString_trim (body ''genre'');
       track_count \<leftarrow> parseInt (body ''track_count'');
       duration \<leftarrow> parseInt (body ''duration'');
       record_label \<leftarrow> toString_trim (body ''record_label'');
       cover_image_url \<leftarrow> toString_trim (body ''cover_image_url'');
       Some \<lparr> album_title = title,
              album_artist_id = artist_id,
              album_release_date = release_date,
              album_genre = genre,
              album_track_count = track_count,
              album_duration = duration,
              album_record_label = or_else record_label (JStr []),
              album_cover_image_url = or_else cover_image_url (JStr []),
              album_createdAt = Some (nowMs rt),
              album_updatedAt = nowMs rt \<rparr>
     }"

text \<open>\<open>POST /albums\<close>, after \<open>requireAuth\<close>.\<close>

definition albums_post ::
  "runtime \<Rightarrow> string \<Rightarrow> db \<Rightarrow> reqbody \<Rightarrow> (string \<times> album) response \<times> db" where
  "albums_post rt insertedId database body =
     (case albums_post_data rt body of
        None \<Rightarrow> (internal_error ''Failed to create album'', database)
      | Some albumData \<Rightarrow>
     let validationErrors = validateAlbum rt albumData
     in
     if length validationErrors > 0 then (validation_failed validationErrors, database)
     else
     (case oidNew rt (album_artist_id albumData) of
        None \<Rightarrow> (internal_error ''Failed to create album'', database)
      | Some artist_oid \<Rightarrow>
     (case findById artist_oid (artists database) of
        None \<Rightarrow>
          ((400, Error ''Artist not found'' ''The specified artist does not exist''), database)
      | Some artist \<Rightarrow>
     (case Option.bind (toString (album_title albumData))
             (\<lambda>title. regExp rt (''^'' @ title @ ''$'')) of
        None \<Rightarrow> (internal_error ''Failed to create album'', database)
      | Some title_re \<Rightarrow>
     (case findOne (\<lambda>d. field_matches title_re (album_title (snd d))
                        \<and> field_eq (album_artist_id (snd d)) (album_artist_id albumData))
             (albums database) of
        Some existingAlbum \<Rightarrow>
          ((409, Error ''Album already exists''
                   ''This artist already has an album with this title''), database)
      | None \<Rightarrow>
     (case insertOne insertedId albumData (albums database) of
        None \<Rightarrow> (internal_error ''Failed to create album'', database)
      | Some inserted \<Rightarrow>
          ((201, Created ''Album created successfully'' (findById insertedId inserted)),
           database\<lparr>albums := inserted\<rparr>)))))))"



section \<open>routes/songs.js\<close>

text \<open>The truth value of \<open>song.track_number\<close>, which is a number or \<open>null\<close>.\<close>

definition truthy_track :: "num option \<Rightarrow> bool" where
  "truthy_track t = (case t of None \<Rightarrow> False | Some n \<Rightarrow> truthy_num n)"

definition track_lt :: "num option \<Rightarrow> int \<Rightarrow> bool" where
  "track_lt t k = (case t of None \<Rightarrow> 0 < k | Some n \<Rightarrow> num_lt n k)"

definition track_gt :: "num option \<Rightarrow> int \<Rightarrow> bool" where
  "track_gt t k = (case t of None \<Rightarrow> 0 > k | Some n \<Rightarrow> num_gt n k)"

definition track_isNaN :: "num option \<Rightarrow> bool" where
  "track_isNaN t = (case t of None \<Rightarrow> False | Some n \<Rightarrow> isNaN n)"

text \<open>\<open>validateSong\<close>.\<close>

definition validateSong :: "runtime \<Rightarrow> song \<Rightarrow> string list" where
  "validateSong rt song =
     (if blank (song_title song)
      then [''Song title is required and must be a non-empty string'']
      else if trim_length (song_title song) > 200
      then [''Song title must be less than 200 characters'']
      else [])
     @ (if \<not> truthy (song_album_id song) \<or> \<not> oidValid rt (song_album_id song)
        then [''Valid album ID is required'']
        else [])
     @ (if \<not> truthy (song_artist_id song) \<or> \<not> oidValid rt (song_artist_id song)
        then [''Valid artist ID is required'']
        else [])
     @ (if \<not> truthy_num (song_duration song) \<or> isNaN (song_duration song)
           \<or> num_lt (song_duration song) 1
        then [''Valid duration in seconds is required (minimum 1)'']
        else if num_gt (song_duration song) 3600
        then [''Duration cannot exceed 3600 seconds (1 hour)'']
        else [])
     @ (if truthy_track (song_track_number song)
           \<and> (track_isNaN (song_track_number song) \<or> track_lt (song_track_number song) 1)
        then [''Track number must be a positive integer'']
        else if truthy_track (song_track_number song) \<and> track_gt (song_track_number song) 200
        then [''Track number cannot exceed 200'']
        else [])
     @ (if blank (song_genre song)
        then [''Genre is required and must be a non-empty string'']
        else if trim_length (song_genre song) > 50
        then [''Genre must be less than 50 characters'']
        else [])
     @ (if truthy (song_lyrics song)
           \<and> (\<not> is_string (song_lyrics song) \<or> str_length (song_lyrics song) > 10000)
        then [''Lyrics must be a string with maximum 10,000 characters'']
        else [])
     @ (if truthy (song_audio_url song)
           \<and> (\<not> is_string (song_audio_url song)
                \<or> \<not> isValidUrl rt (the_str (song_audio_url song)))
        then [''Audio URL must be a valid URL'']
        else [])
     @ (if truthy (JArr (song_featured_artists song))
           \<and> \<not> isArray (JArr (song_featured_artists song))
        then [''Featured artists must be an array'']
        else [])"

text \<open>
  The \<open>duration\<close> filter of \<open>GET /songs\<close>. When a bound is given and none parses
  the query is \<open>duration: {}\<close>, which no number equals. A \<open>NaN\<close> duration, which
  no handler stores, is taken to lie below every bound.
\<close>

definition duration_filter :: "string option \<Rightarrow> string option \<Rightarrow> num \<Rightarrow> bool" where
  "duration_filter dmin dmax field =
     (if (dmin \<noteq> None \<and> dmin \<noteq> Some []) \<or> (dmax \<noteq> None \<and> dmax \<noteq> Some [])
      then
        (case (parsed_param dmin, parsed_param dmax) of
           (None, None) \<Rightarrow> False
         | (lo, hi) \<Rightarrow>
             (case lo of None \<Rightarrow> True | Some n \<Rightarrow> (case field of Num d \<Rightarrow> n \<le> d | NaN \<Rightarrow> False))
             \<and> (case hi of None \<Rightarrow> True | Some n \<Rightarrow> (case field of Num d \<Rightarrow> d \<le> n | NaN \<Rightarrow> True)))
      else True)"

definition songs_query :: "runtime \<Rightarrow> query \<Rightarrow> (string \<times> song \<Rightarrow> bool) option" where
  "songs_query rt q =
     do {
       genre \<leftarrow> regexp_filter rt (q ''genre'');
       Some (\<lambda>d. genre (song_genre (snd d))
                \<and> id_filter rt (q ''artist_id'') (song_artist_id (snd d))
                \<and> id_filter rt (q ''album_id'') (song_album_id (snd d))
                \<and> duration_filter (q ''duration_min'') (q ''duration_max'') (song_duration (snd d)))
     }"

definition key_track :: "num option \<Rightarrow> sort_key" where
  "key_track t = (case t of None \<Rightarrow> (0, 0, []) | Some n \<Rightarrow> key_num n)"

definition song_sort_key :: "string \<Rightarrow> string \<times> song \<Rightarrow> sort_key" where
  "song_sort_key sortField d =
     (if sortField = ''title'' then key_jv (song_title (snd d))
      else if sortField = ''genre'' then key_jv (song_genre (snd d))
      else if sortField = ''duration'' then key_num (song_duration (snd d))
      else if sortField = ''track_number'' then key_track (song_track_number (snd d))
      else key_opt_date (song_createdAt (snd d)))"

definition songs_sort :: "query \<Rightarrow> (string \<times> song) list \<Rightarrow> (string \<times> song) list" where
  "songs_sort q docs =
     (case q ''sortBy'' of
        None \<Rightarrow> docs
      | Some sortField \<Rightarrow>
          if sortField \<noteq> []
             \<and> sortField \<in> set [''title'', ''genre'', ''duration'', ''track_number'', ''createdAt'']
          then order_by (song_sort_key sortField) (q ''sortOrder'' = Some ''desc'') docs
          else docs)"

text \<open>\<open>GET /songs\<close>.\<close>

definition songs_get_all :: "runtime \<Rightarrow> db \<Rightarrow> query \<Rightarrow> (string \<times> song) response" where
  "songs_get_all rt database q =
     (case songs_query rt q of
        None \<Rightarrow> internal_error ''Failed to fetch songs''
      | Some query \<Rightarrow>
          let page = parseInt_or (q ''page'') 1;
              limit = parseInt_or (q ''limit'') 10
          in if limit > 100
             then (400, Error ''Invalid limit'' ''Limit cannot exceed 100 items per page'')
             else
               let skip = (page - 1) * limit
               in case find_page skip limit (songs_sort q (filter query (songs database))) of
                    None \<Rightarrow> internal_error ''Failed to fetch songs''
                  | Some found \<Rightarrow>
                      let totalCount = countDocuments query (songs database)
                      in (200, Listing found (page_info page limit totalCount)))"

text \<open>
  The sanitised record of \<open>POST /songs\<close> and \<open>PUT /songs/:id\<close>; the first sets
  \<open>createdAt\<close>.
\<close>

definition songs_data :: "runtime \<Rightarrow> bool \<Rightarrow> reqbody \<Rightarrow> song option" where
  "songs_data rt creating body =
     do {
       title \<leftarrow> toString_trim (body ''title'');
       album_id \<leftarrow> toString_trim (body ''album_id'');
       artist_id \<leftarrow> toString_trim (body ''artist_id'');
       duration \<leftarrow> parseInt (body ''duration'');
       track_number \<leftarrow>
         (if truthy (body ''track_number'') then map_option Some (parseInt (body ''track_number''))
          else Some None);
       genre \<leftarrow> toString_trim (body ''genre'');
       lyrics \<leftarrow> toString_trim (body ''lyrics'');
       audio_url \<leftarrow> toString_trim (body ''audio_url'');
       featured_artists \<leftarrow>
         (case body ''featured_artists'' of
            JArr as \<Rightarrow> map_option (filter truthy) (sequence (map toString_trim as))
          | _ \<Rightarrow> Some []);
       Some \<lparr> song_title = title,
              song_album_id = album_id,
              song_artist_id = artist_id,
              song_duration = duration,
              song_track_number = track_number,
              song_genre = genre,
              song_lyrics = or_else lyrics (JStr []),
              song_audio_url = or_else audio_url (JStr []),
              song_featured_artists = featured_artists,
              song_createdAt = (if creating then Some (nowMs rt) else None),
              song_updatedAt = nowMs rt \<rparr>
     }"

text \<open>\<open>POST /songs\<close>, after \<open>requireAuth\<close>.\<close>

definition songs_post ::
  "runtime \<Rightarrow> string \<Rightarrow> db \<Rightarrow> reqbody \<Rightarrow> (string \<times> song) response \<times> db" where
  "songs_post rt insertedId database body =
     (case songs_data rt True body of
        None \<Rightarrow> (internal_error ''Failed to create song'', database)
      | Some songData \<Rightarrow>
     let validationErrors = validateSong rt songData
     in
     if length validationErrors > 0 then (validation_failed validationErrors, database)
     else
     (case oidNew rt (song_album_id songData) of
        None \<Rightarrow> (internal_error ''Failed to create song'', database)
      | Some album_oid \<Rightarrow>
     (case findById album_oid (albums database) of
        None \<Rightarrow>
          ((400, Error ''Album not found'' ''The specified album does not exist''), database)
      | Some album \<Rightarrow>
     (case oidNew rt (song_artist_id songData) of
        None \<Rightarrow> (internal_error ''Failed to create song'', database)
      | Some artist_oid \<Rightarrow>
     (case findById artist_oid (artists database) of
        None \<Rightarrow>
          ((400, Error ''Artist not found'' ''The specified artist does not exist''), database)
      | Some artist \<Rightarrow>
     (case Option.bind (toString (song_title songData))
             (\<lambda>title. regExp rt (''^'' @ title @ ''$'')) of
        None \<Rightarrow> (internal_error ''Failed to create song'', database)
      | Some title_re \<Rightarrow>
     (case findOne (\<lambda>d. field_matches title_re (song_title (snd d))
                        \<and> field_eq (song_album_id (snd d)) (song_album_id songData))
             (songs database) of
        Some existingSong \<Rightarrow>
          ((409, Error ''Song already exists''
                   ''This album already has a song with this title''), database)
      | None \<Rightarrow>
     (case (if truthy_track (song_track_number songData)
            then findOne (\<lambda>d. field_eq (song_album_id (snd d)) (song_album_id songData)
                               \<and> song_track_number (snd d) = song_track_number songData)
                   (songs database)
            else None) of
        Some existingTrack \<Rightarrow>
          ((409, Error ''Track number already exists''
                   ''This album already has a song with this track number''), database)
      | None \<Rightarrow>
     (case insertOne insertedId songData (songs database) of
        None \<Rightarrow> (internal_error ''Failed to create song'', database)
      | Some inserted \<Rightarrow>
          ((201, Created ''Song created successfully'' (findById insertedId inserted)),
           database\<lparr>songs := inserted\<rparr>))))))))))"




section \<open>routes/playlists.js\<close>

text \<open>\<open>v.toString()\<close> as a method call: \<open>null\<close> and \<open>undefined\<close> have no method.\<close>

definition call_toString :: "jv \<Rightarrow> string option" where
  "call_toString v = (if v = JUndefined \<or> v = JNull then None else toString v)"

definition song_id_errors :: "runtime \<Rightarrow> nat \<times> jv \<Rightarrow> string list" where
  "song_id_errors rt ix =
     (case ix of (i, x) \<Rightarrow>
        if \<not> oidValid rt x then [''Song '' @ show_nat (i + 1) @ '' must be a valid MongoDB ObjectId'']
        else [])"

definition tag_errors :: "nat \<times> jv \<Rightarrow> string list" where
  "tag_errors it =
     (case it of (i, t) \<Rightarrow>
        if blank t then [''Tag '' @ show_nat (i + 1) @ '' must be a non-empty string'']
        else if trim_length t > 30
        then [''Tag '' @ show_nat (i + 1) @ '' must be less than 30 characters'']
        else [])"

text \<open>
  \<open>validatePlaylist\<close>. \<open>None\<close> is a \<open>TypeError\<close> of \<open>id.toString()\<close> in the
  duplicate check.
\<close>

definition validatePlaylist :: "runtime \<Rightarrow> playlist \<Rightarrow> string list option" where
  "validatePlaylist rt playlist =
     do {
       songs_errors \<leftarrow>
         (if truthy (JArr (playlist_songs playlist)) \<and> \<not> isArray (JArr (playlist_songs playlist))
          then Some [''Songs must be an array'']
          else if truthy (JArr (playlist_songs playlist))
          then
            do {
              songIds \<leftarrow> sequence (map call_toString (playlist_songs playlist));
              Some (concat (map (song_id_errors rt) (enumerate 0 (playlist_songs playlist)))
                    @ (if length (duplicates songIds) > 0
                       then [''Duplicate songs are not allowed in the playlist'']
                       else []))
            }
          else Some []);
       Some
         ((if blank (playlist_name playlist)
           then [''Playlist name is required and must be a non-empty string'']
           else if trim_length (playlist_name playlist) > 100
           then [''Playlist name must be less than 100 characters'']
           else [])
          @ (if blank (playlist_creator_name playlist)
             then [''Creator name is required and must be a non-empty string'']
             else if trim_length (playlist_creator_name playlist) > 100
             then [''Creator name must be less than 100 characters'']
             else [])
          @ (if truthy (playlist_description playlist)
                \<and> (\<not> is_string (playlist_description playlist)
                     \<or> str_length (playlist_description playlist) > 1000)
             then [''Description must be a string with maximum 1000 characters'']
             else [])
          @ songs_errors
          @ (if truthy (JArr (playlist_tags playlist)) \<and> \<not> isArray (JArr (playlist_tags playlist))
             then [''Tags must be an array'']
             else if truthy (JArr (playlist_tags playlist))
             then concat (map tag_errors (enumerate 0 (playlist_tags playlist)))
             else [])
          @ (if truthy (playlist_cover_image_url playlist)
                \<and> (\<not> is_string (playlist_cover_image_url playlist)
                     \<or> \<not> isValidUrl rt (the_str (playlist_cover_image_url playlist)))
             then [''Cover image URL must be a valid URL'']
             else []))
     }"

definition playlists_query :: "runtime \<Rightarrow> query \<Rightarrow> (string \<times> playlist \<Rightarrow> bool) option" where
  "playlists_query rt q =
     do {
       creator \<leftarrow> regexp_filter rt (q ''creator'');
       tag \<leftarrow> regexp_filter rt (q ''tag'');
       Some (\<lambda>d. creator (playlist_creator_name (snd d))
                \<and> tag (JArr (playlist_tags (snd d)))
                \<and> (case q ''is_public'' of
                      None \<Rightarrow> True
                    | Some s \<Rightarrow> playlist_is_public (snd d) = (s = ''true'')))
     }"

definition playlist_sort_key :: "string \<Rightarrow> string \<times> playlist \<Rightarrow> sort_key" where
  "playlist_sort_key sortField d =
     (if sortField = ''name'' then key_jv (playlist_name (snd d))
      else if sortField = ''creator_name'' then key_jv (playlist_creator_name (snd d))
      else if sortField = ''createdAt'' then key_opt_date (playlist_createdAt (snd d))
      else key_date (playlist_updatedAt (snd d)))"

definition playlists_sort ::
  "query \<Rightarrow> (string \<times> playlist) list \<Rightarrow> (string \<times> playlist) list" where
  "playlists_sort q docs =
     (case q ''sortBy'' of
        None \<Rightarrow> docs
      | Some sortField \<Rightarrow>
          if sortField \<noteq> []
             \<and> sortField \<in> set [''name'', ''creator_name'', ''createdAt'', ''updatedAt'']
          then order_by (playlist_sort_key sortField) (q ''sortOrder'' = Some ''desc'') docs
          else docs)"

text \<open>\<open>GET /playlists\<close>.\<close>

definition playlists_get_all :: "runtime \<Rightarrow> db \<Rightarrow> query \<Rightarrow> (string \<times> playlist) response" where
  "playlists_get_all rt database q =
     (case playlists_query rt q of
        None \<Rightarrow> internal_error ''Failed to fetch playlists''
      | Some query \<Rightarrow>
          let page = parseInt_or (q ''page'') 1;
              limit = parseInt_or (q ''limit'') 10
          in if limit > 100
             then (400, Error ''Invalid limit'' ''Limit cannot exceed 100 items per page'')
             else
               let skip = (page - 1) * limit
               in case find_page skip limit
                         (playlists_sort q (filter query (playlists database))) of
                    None \<Rightarrow> internal_error ''Failed to fetch playlists''
                  | Some found \<Rightarrow>
                      let totalCount = countDocuments query (playlists database)
                      in (200, Listing found (page_info page limit totalCount)))"

text \<open>
  \<open>GET /playlists/:id/songs\<close>. The callback of \<open>songs.find\<close> compares
  \<open>song._id.toString()\<close> with \<open>songId.toString()\<close>; it runs, and the second can
  throw, only when the query found a song.
\<close>

definition playlists_get_songs :: "runtime \<Rightarrow> db \<Rightarrow> string \<Rightarrow> (string \<times> song) response" where
  "playlists_get_songs rt database param_id =
     (if \<not> oidValid rt (JStr param_id)
      then (400, Error ''Invalid playlist ID format'' ''Please provide a valid MongoDB ObjectId'')
      else
     (case oidNew rt (JStr param_id) of
        None \<Rightarrow> internal_error ''Failed to fetch playlist songs''
      | Some oid \<Rightarrow>
     (case findById oid (playlists database) of
        None \<Rightarrow> (404, Error ''Playlist not found'' ''No playlist exists with the provided ID'')
      | Some playlist \<Rightarrow>
     if length (playlist_songs (snd playlist)) = 0 then (200, Documents [])
     else
     (case sequence (map (oidNew rt) (playlist_songs (snd playlist))) of
        None \<Rightarrow> internal_error ''Failed to fetch playlist songs''
      | Some songIds \<Rightarrow>
     let found = filter (\<lambda>song. fst song \<in> set songIds) (songs database)
     in
     (case sequence (map (\<lambda>songId. if found = [] then Some None
                                   else map_option (\<lambda>s. findOne (\<lambda>song. fst song = s) found)
                                          (call_toString songId))
                       (playlist_songs (snd playlist))) of
        None \<Rightarrow> internal_error ''Failed to fetch playlist songs''
      | Some looked_up \<Rightarrow>
          (200, Documents (map the (filter (\<lambda>song. song \<noteq> None) looked_up))))))))"






text \<open>\<open>PUT /playlists/:id/songs/:songId\<close>, after \<open>requireAuth\<close>.\<close>

definition playlists_add_song ::
  "runtime \<Rightarrow> db \<Rightarrow> string \<Rightarrow> string \<Rightarrow> (string \<times> playlist) response \<times> db" where
  "playlists_add_song rt database param_id songId =
     (if \<not> oidValid rt (JStr param_id)
      then ((400, Error ''Invalid playlist ID format''
                    ''Please provide a valid MongoDB ObjectId''), database)
      else if \<not> oidValid rt (JStr songId)
      then ((400, Error ''Invalid song ID format'' ''Please provide a valid MongoDB ObjectId''),
            database)
      else
     (case oidNew rt (JStr songId) of
        None \<Rightarrow> (internal_error ''Failed to add song to playlist'', database)
      | Some song_oid \<Rightarrow>
     (case findById song_oid (songs database) of
        None \<Rightarrow> ((404, Error ''Song not found'' ''The specified song does not exist''), database)
      | Some song \<Rightarrow>
     (case oidNew rt (JStr param_id) of
        None \<Rightarrow> (internal_error ''Failed to add song to playlist'', database)
      | Some oid \<Rightarrow>
     (case findById oid (playlists database) of
        None \<Rightarrow>
          ((404, Error ''Playlist not found'' ''The specified playlist does not exist''),
           database)
      | Some playlist \<Rightarrow>
     if JStr songId \<in> set (playlist_songs (snd playlist))
     then ((409, Error ''Song already in playlist'' ''This song is already in the playlist''),
           database)
     else
       ((200, Message ''Song added to playlist successfully''),
        (case updateOne oid
                (\<lambda>p. p\<lparr>playlist_songs := playlist_songs p @ [JStr songId],
                        playlist_updatedAt := nowMs rt\<rparr>)
                (playlists database) of
           None \<Rightarrow> database
         | Some updated \<Rightarrow> database\<lparr>playlists := updated\<rparr>)))))))"


section \<open>A runtime for the examples\<close>

text \<open>
  The theorems below hold for every runtime. The examples are evaluated in the
  one defined here, which follows Node.js and the driver on the inputs the
  examples pass: identifiers that are strings, dates written \<open>YYYY-MM-DD\<close>, and
  regular expressions of the fragment described next. The examples leave every
  URL field empty, so that no URL is parsed.
\<close>

subsection \<open>Regular expressions\<close>

text \<open>
  The fragment: literal characters, \<open>.\<close>, \<open>^\<close>, \<open>$\<close> and capturing groups, without
  quantifiers or alternatives, so that a group only has to be closed. A pattern
  with any other special character is outside the fragment.
\<close>

datatype rx_item = Lit char | AnyChar | Bol | Eol

datatype rx_result = Compiled "rx_item list" | Syntax_error | Unsupported

definition rx_cons :: "rx_item \<Rightarrow> rx_result \<Rightarrow> rx_result" where
  "rx_cons item r = (case r of Compiled items \<Rightarrow> Compiled (item # items) | _ \<Rightarrow> r)"

text \<open>
  \<open>depth\<close> counts the groups that are open. An unmatched \<open>)\<close> and a group left
  open at the end are the syntax errors of the fragment.
\<close>

fun rx_parse :: "nat \<Rightarrow> string \<Rightarrow> rx_result" where
  "rx_parse depth [] = (if depth = 0 then Compiled [] else Syntax_error)"
| "rx_parse depth (c # cs) =
     (if c = CHR ''('' then (if take 1 cs = ''?'' then Unsupported else rx_parse (Suc depth) cs)
      else if c = CHR '')'' then (if depth = 0 then Syntax_error else rx_parse (depth - 1) cs)
      else if c = CHR ''.'' then rx_cons AnyChar (rx_parse depth cs)
      else if c = CHR ''^'' then rx_cons Bol (rx_parse depth cs)
      else if c = CHR ''$'' then rx_cons Eol (rx_parse depth cs)
      else if c \<in> set [CHR 0x5C, CHR ''*'', CHR ''+'', CHR ''?'', CHR ''['', CHR '']'',
                        CHR ''{'', CHR ''}'', CHR ''|'']
      then Unsupported
      else rx_cons (Lit c) (rx_parse depth cs))"

text \<open>
  Matching at a position, ignoring case; \<open>at_start\<close> says whether the position is
  the start of the input. \<open>.\<close> matches any character but a line break.
\<close>

fun rx_match_here :: "rx_item list \<Rightarrow> bool \<Rightarrow> string \<Rightarrow> bool" where
  "rx_match_here [] at_start s = True"
| "rx_match_here (Bol # items) at_start s = (at_start \<and> rx_match_here items at_start s)"
| "rx_match_here (Eol # items) at_start s = (s = [] \<and> rx_match_here items at_start s)"
| "rx_match_here (Lit c # items) at_start [] = False"
| "rx_match_here (Lit c # items) at_start (x # xs) =
     (lower_char c = lower_char x \<and> rx_match_here items False xs)"
| "rx_match_here (AnyChar # items) at_start [] = False"
| "rx_match_here (AnyChar # items) at_start (x # xs) =
     (x \<noteq> CHR 0x0A \<and> x \<noteq> CHR 0x0D \<and> rx_match_here items False xs)"

fun rx_search :: "rx_item list \<Rightarrow> bool \<Rightarrow> string \<Rightarrow> bool" where
  "rx_search items at_start [] = rx_match_here items at_start []"
| "rx_search items at_start (x # xs) =
     (rx_match_here items at_start (x # xs) \<or> rx_search items False xs)"

definition example_regExp :: "string \<Rightarrow> (string \<Rightarrow> bool) option" where
  "example_regExp pattern =
     (case rx_parse 0 pattern of
        Compiled items \<Rightarrow> Some (rx_search items True)
      | Syntax_error \<Rightarrow> None
      | Unsupported \<Rightarrow> None)"

subsection \<open>Identifiers, dates and URLs\<close>

definition hex24 :: "string \<Rightarrow> bool" where
  "hex24 s = (length s = 24 \<and> list_all (\<lambda>c. c \<in> set ''0123456789abcdefABCDEF'') s)"

definition example_oidValid :: "jv \<Rightarrow> bool" where
  "example_oidValid v = (case v of JStr s \<Rightarrow> hex24 s | _ \<Rightarrow> False)"

text \<open>The hexadecimal string of an \<open>ObjectId\<close> is in lower case.\<close>

definition example_oidNew :: "jv \<Rightarrow> string option" where
  "example_oidNew v =
     (case v of JStr s \<Rightarrow> if hex24 s then Some (toLowerCase s) else None | _ \<Rightarrow> None)"

definition days_from_civil :: "int \<Rightarrow> int \<Rightarrow> int \<Rightarrow> int" where
  "days_from_civil y m d =
     (let y1 = (if m \<le> 2 then y - 1 else y);
          era = y1 div 400;
          yoe = y1 - era * 400;
          doy = (153 * (if m > 2 then m - 3 else m + 9) + 2) div 5 + d - 1;
          doe = yoe * 365 + yoe div 4 - yoe div 100 + doy
      in era * 146097 + doe - 719468)"

definition days_in_month :: "int \<Rightarrow> int \<Rightarrow> int" where
  "days_in_month y m =
     (if m = 2 then (if y mod 4 = 0 \<and> (y mod 100 \<noteq> 0 \<or> y mod 400 = 0) then 29 else 28)
      else if m \<in> set [4, 6, 9, 11] then 30 else 31)"

definition iso_date :: "string \<Rightarrow> int option" where
  "iso_date s =
     (if length s = 10 \<and> s ! 4 = CHR ''-'' \<and> s ! 7 = CHR ''-''
      then
        (case (digits_val 10 (take 4 s), digits_val 10 (take 2 (drop 5 s)),
               digits_val 10 (drop 8 s)) of
           (Some y, Some m, Some d) \<Rightarrow>
             if list_all (\<lambda>c. digit_val 10 c \<noteq> None) (take 4 s @ take 2 (drop 5 s) @ drop 8 s)
                \<and> 1 \<le> m \<and> m \<le> 12 \<and> 1 \<le> d \<and> int d \<le> days_in_month (int y) (int m)
             then Some (days_from_civil (int y) (int m) (int d) * 86400000)
             else None
         | _ \<Rightarrow> None)
      else None)"

definition example_dateTime :: "jv \<Rightarrow> int option" where
  "example_dateTime v = (case v of JStr s \<Rightarrow> iso_date s | JNum n \<Rightarrow> Some n | _ \<Rightarrow> None)"

definition example_urlParses :: "string \<Rightarrow> bool" where
  "example_urlParses s =
     (\<exists>rest \<in> set [drop 7 s, drop 8 s].
        rest \<noteq> [] \<and> list_all (\<lambda>c. c \<in> set ''abcdefghijklmnopqrstuvwxyz'') rest
        \<and> (s = ''http://'' @ rest \<or> s = ''https://'' @ rest))"

text \<open>The clock reads 2025-11-03, 00:00 UTC.\<close>

definition example_runtime :: runtime where
  "example_runtime =
     \<lparr> nowMs = 1762128000000,
       fullYear = 2025,
       dateTime = example_dateTime,
       urlParses = example_urlParses,
       regExp = example_regExp,
       oidValid = example_oidValid,
       oidNew = example_oidNew \<rparr>"

section \<open>A database for the examples\<close>

definition artist_A :: "string \<times> artist" where
  "artist_A =
     (''507f1f77bcf86cd799439011'',
      \<lparr> artist_name = JStr ''abc'',
        artist_genre = JStr ''Rock'',
        artist_country = JStr ''UK'',
        artist_formed_year = Num 2000,
        artist_members = JArr [JStr ''X''],
        artist_biography = JStr [],
        artist_website = JStr [],
        artist_social_media = JObj [],
        artist_createdAt = Some 1700000000000,
        artist_updatedAt = 1700000000000 \<rparr>)"

definition album_T :: "string \<times> album" where
  "album_T =
     (''507f1f77bcf86cd799439012'',
      \<lparr> album_title = JStr ''T'',
        album_artist_id = JStr ''507f1f77bcf86cd799439011'',
        album_release_date = JStr ''2020-01-01'',
        album_genre = JStr ''Rock'',
        album_track_count = Num 10,
        album_duration = Num 40,
        album_record_label = JStr [],
        album_cover_image_url = JStr [],
        album_createdAt = Some 1700000000000,
        album_updatedAt = 1700000000000 \<rparr>)"

definition song_S :: "string \<times> song" where
  "song_S =
     (''507f1f77bcf86cd799439013'',
      \<lparr> song_title = JStr ''S'',
        song_album_id = JStr ''507f1f77bcf86cd799439012'',
        song_artist_id = JStr ''507f1f77bcf86cd799439011'',
        song_duration = Num 240,
        song_track_number = Some (Num 1),
        song_genre = JStr ''Rock'',
        song_lyrics = JStr [],
        song_audio_url = JStr [],
        song_featured_artists = [],
        song_createdAt = Some 1700000000000,
        song_updatedAt = 1700000000000 \<rparr>)"

definition playlist_P :: "string \<times> playlist" where
  "playlist_P =
     (''507f1f77bcf86cd799439014'',
      \<lparr> playlist_name = JStr ''P'',
        playlist_creator_name = JStr ''C'',
        playlist_description = JStr [],
        playlist_songs = [JStr ''507f1f77bcf86cd799439013''],
        playlist_tags = [],
        playlist_is_public = True,
        playlist_cover_image_url = JStr [],
        playlist_createdAt = Some 1700000000000,
        playlist_updatedAt = 1700000000000 \<rparr>)"

definition example_db :: db where
  "example_db =
     \<lparr> artists = [artist_A], albums = [album_T], songs = [song_S], playlists = [playlist_P] \<rparr>"

definition empty_db :: db where
  "empty_db = \<lparr> artists = [], albums = [], songs = [], playlists = [] \<rparr>"

text \<open>A second document in every collection.\<close>

definition artist_B :: "string \<times> artist" where
  "artist_B =
     (''507f1f77bcf86cd799439021'',
      \<lparr> artist_name = JStr ''def'',
        artist_genre = JStr ''Rock'',
        artist_country = JStr ''UK'',
        artist_formed_year = Num 2001,
        artist_members = JArr [JStr ''Y''],
        artist_biography = JStr [],
        artist_website = JStr [],
        artist_social_media = JObj [],
        artist_createdAt = Some 1700000000000,
        artist_updatedAt = 1700000000000 \<rparr>)"

definition album_U :: "string \<times> album" where
  "album_U =
     (''507f1f77bcf86cd799439022'',
      \<lparr> album_title = JStr ''U'',
        album_artist_id = JStr ''507f1f77bcf86cd799439011'',
        album_release_date = JStr ''2021-05-05'',
        album_genre = JStr ''Pop'',
        album_track_count = Num 9,
        album_duration = Num 30,
        album_record_label = JStr [],
        album_cover_image_url = JStr [],
        album_createdAt = Some 1700000000000,
        album_updatedAt = 1700000000000 \<rparr>)"

definition song_R :: "string \<times> song" where
  "song_R =
     (''507f1f77bcf86cd799439023'',
      \<lparr> song_title = JStr ''R'',
        song_album_id = JStr ''507f1f77bcf86cd799439012'',
        song_artist_id = JStr ''507f1f77bcf86cd799439011'',
        song_duration = Num 200,
        song_track_number = Some (Num 2),
        song_genre = JStr ''Rock'',
        song_lyrics = JStr [],
        song_audio_url = JStr [],
        song_featured_artists = [],
        song_createdAt = Some 1700000000000,
        song_updatedAt = 1700000000000 \<rparr>)"

definition playlist_Q :: "string \<times> playlist" where
  "playlist_Q =
     (''507f1f77bcf86cd799439024'',
      \<lparr> playlist_name = JStr ''Q'',
        playlist_creator_name = JStr ''C'',
        playlist_description = JStr [],
        playlist_songs = [],
        playlist_tags = [],
        playlist_is_public = False,
        playlist_cover_image_url = JStr [],
        playlist_createdAt = Some 1700000000000,
        playlist_updatedAt = 1700000000000 \<rparr>)"

definition example_db2 :: db where
  "example_db2 =
     \<lparr> artists = [artist_A, artist_B], albums = [album_T, album_U],
       songs = [song_S, song_R], playlists = [playlist_P, playlist_Q] \<rparr>"

section \<open>A client that reads every page\<close>

text \<open>
  The pagination a listing must return for page \<open>page\<close>, page size \<open>limit\<close> and
  \<open>n\<close> matching documents.
\<close>

definition pagination_of :: "int \<Rightarrow> int \<Rightarrow> int \<Rightarrow> pagination" where
  "pagination_of page limit n =
     \<lparr> currentPage = page,
       totalPages = \<lceil>real_of_int n / real_of_int limit\<rceil>,
       totalItems = n,
       hasNext = (page * limit < n),
       hasPrev = (page > 1) \<rparr>"

definition with_page :: "query \<Rightarrow> int \<Rightarrow> query" where
  "with_page q page = q(''page'' := Some (show_int page))"

text \<open>
  The client asks for page \<open>page\<close>, then for the next one while \<open>hasNext\<close> holds, and
  returns the item lists it was sent. It gives up (\<open>None\<close>) on an answer that is
  not a 200 with a page, or when it has made \<open>fuel\<close> requests and \<open>hasNext\<close> still
  holds.
\<close>

fun fetch_pages :: "nat \<Rightarrow> (int \<Rightarrow> 'd response) \<Rightarrow> int \<Rightarrow> 'd list list option" where
  "fetch_pages 0 get page = None"
| "fetch_pages (Suc fuel) get page =
     (case get page of
        (status, Listing items info) \<Rightarrow>
          if status \<noteq> 200 then None
          else if hasNext info
          then map_option ((#) items) (fetch_pages fuel get (page + 1))
          else Some [items]
      | _ \<Rightarrow> None)"

section \<open>Requests of the examples\<close>

text \<open>The query string \<open>?limit=l\<close>.\<close>

definition limit_query :: "string \<Rightarrow> query" where
  "limit_query l = (\<lambda>k. None)(''limit'' := Some l)"

text \<open>
  The bodies of the \<open>POST\<close> and \<open>PUT\<close> requests of the examples; a key that is
  not listed is absent.
\<close>

definition artist_body :: "string \<Rightarrow> reqbody" where
  "artist_body name =
     (\<lambda>k. JUndefined)
       (''name'' := JStr name,
        ''genre'' := JStr ''Rock'',
        ''country'' := JStr ''UK'',
        ''formed_year'' := JNum 2000,
        ''members'' := JArr [JStr ''X''])"

definition album_body :: "string \<Rightarrow> reqbody" where
  "album_body artist_id =
     (\<lambda>k. JUndefined)
       (''title'' := JStr ''U'',
        ''artist_id'' := JStr artist_id,
        ''release_date'' := JStr ''2021-05-05'',
        ''genre'' := JStr ''Pop'',
        ''track_count'' := JNum 9,
        ''duration'' := JNum 30)"

definition song_body :: "string \<Rightarrow> jv \<Rightarrow> reqbody" where
  "song_body title track_number =
     (\<lambda>k. JUndefined)
       (''title'' := JStr title,
        ''album_id'' := JStr ''507f1f77bcf86cd799439012'',
        ''artist_id'' := JStr ''507f1f77bcf86cd799439011'',
        ''duration'' := JNum 200,
        ''track_number'' := track_number,
        ''genre'' := JStr ''Rock'')"


section \<open>The uniqueness rules\<close>





section \<open>Facts about the store\<close>

lemma countDocuments_pos: "d \<in> set docs \<Longrightarrow> p d \<Longrightarrow> countDocuments p docs > 0"
  by (auto simp: countDocuments_def filter_empty_conv)

section \<open>Facts about the primitives\<close>

lemma ceil_div_ceiling: "b \<noteq> 0 \<Longrightarrow> ceil_div a b = \<lceil>real_of_int a / real_of_int b\<rceil>"
proof -
  have "\<lceil>real_of_int a / real_of_int b\<rceil> = - \<lfloor>real_of_int (- a) / real_of_int b\<rfloor>"
    by (simp add: ceiling_def)
  also have "\<dots> = - ((- a) div b)"
    by (simp only: floor_divide_of_int_eq)
  finally show ?thesis by (simp add: ceil_div_def)
qed

lemma page_info_eq: "limit \<noteq> 0 \<Longrightarrow> page_info page limit n = pagination_of page limit n"
  by (simp add: page_info_def pagination_of_def ceil_div_ceiling)

lemma below_ten:
  assumes "k < (10::nat)"
  obtains "k = 0" | "k = 1" | "k = 2" | "k = 3" | "k = 4" | "k = 5" | "k = 6" | "k = 7" | "k = 8" | "k = 9"
  using assms by atomize_elim arith

lemma digit_char: "k < 10 \<Longrightarrow> digit_val 10 (''0123456789'' ! k) = Some k"
  by (erule below_ten) (simp_all add: digit_val_def lower_char_def)

lemma digit_char_plain:
  "k < 10 \<Longrightarrow> \<not> is_space (''0123456789'' ! k) \<and> ''0123456789'' ! k \<noteq> CHR ''-''
     \<and> ''0123456789'' ! k \<noteq> CHR ''+'' \<and> ''0123456789'' ! k \<noteq> CHR ''x''
     \<and> ''0123456789'' ! k \<noteq> CHR ''X''"
  by (erule below_ten) (simp_all add: is_space_def)

lemma show_nat_unfold:
  "show_nat n = (if n < 10 then [''0123456789'' ! n] else show_nat (n div 10) @ [''0123456789'' ! (n mod 10)])"
  by (rule show_nat.simps)

declare show_nat.simps [simp del]

lemma show_nat_digits: "\<exists>ks. show_nat n = map (\<lambda>k. ''0123456789'' ! k) ks \<and> ks \<noteq> [] \<and> list_all (\<lambda>k. k < 10) ks \<and> foldl (\<lambda>a k. a * 10 + k) 0 ks = n"
proof (induction n rule: show_nat.induct)
  case (1 n)
  show ?case
  proof (cases "n < 10")
    case True
    then have "show_nat n = map (\<lambda>k. ''0123456789'' ! k) [n]"
      by (subst show_nat_unfold) simp
    with True show ?thesis by (intro exI[of _ "[n]"]) simp
  next
    case False
    with 1 obtain ks where ks: "show_nat (n div 10) = map (\<lambda>k. ''0123456789'' ! k) ks" "ks \<noteq> []"
      "list_all (\<lambda>k. k < 10) ks" "foldl (\<lambda>a k. a * 10 + k) 0 ks = n div 10"
      by blast
    from False have "show_nat n = show_nat (n div 10) @ [''0123456789'' ! (n mod 10)]"
      by (subst show_nat_unfold) simp
    with ks show ?thesis
      by (intro exI[of _ "ks @ [n mod 10]"]) simp
  qed
qed

lemma digits_val_digits:
  assumes "list_all (\<lambda>k. k < 10) ks" "ks \<noteq> []"
  shows "digits_val 10 (map (\<lambda>k. ''0123456789'' ! k) ks) = Some (foldl (\<lambda>a k. a * 10 + k) 0 ks)"
proof -
  let ?s = "map (\<lambda>k. ''0123456789'' ! k) ks"
  have all: "\<forall>c \<in> set ?s. digit_val 10 c \<noteq> None"
    using assms(1) by (auto simp: list_all_iff digit_char)
  then have tw: "takeWhile (\<lambda>c. digit_val 10 c \<noteq> None) ?s = ?s"
    by (simp add: takeWhile_eq_all_conv)
  have fold: "foldl (\<lambda>a c. a * 10 + the (digit_val 10 c)) a (map (\<lambda>k. ''0123456789'' ! k) ks)
        = foldl (\<lambda>a k. a * 10 + k) a ks" for a
    using assms(1) by (induction ks arbitrary: a) (simp_all add: digit_char)
  show ?thesis
    unfolding digits_val_def Let_def tw using assms(2) by (simp add: fold)
qed

lemma parseInt_str_show_nat: "parseInt_str (show_nat n) = Num (int n)"
proof -
  obtain ks where ks: "show_nat n = map (\<lambda>k. ''0123456789'' ! k) ks" "ks \<noteq> []"
      "list_all (\<lambda>k. k < 10) ks" "foldl (\<lambda>a k. a * 10 + k) 0 ks = n"
    using show_nat_digits by blast
  then obtain k ks' where kk: "ks = k # ks'" "k < 10" by (cases ks) auto
  let ?s = "show_nat n"
  have hd: "?s = (''0123456789'' ! k) # map (\<lambda>k. ''0123456789'' ! k) ks'"
    using ks(1) kk by simp
  have 1: "dropWhile is_space ?s = ?s"
    using digit_char_plain[OF kk(2)] by (simp add: hd)
  have 2: "take 1 ?s \<noteq> ''-''" "take 1 ?s \<noteq> ''+''"
    using digit_char_plain[OF kk(2)] by (simp_all add: hd)
  have 3: "take 2 ?s \<noteq> ''0x''" "take 2 ?s \<noteq> ''0X''"
  proof -
    show "take 2 ?s \<noteq> ''0x''"
    proof (cases ks')
      case Nil then show ?thesis by (simp add: hd)
    next
      case (Cons k2 ks2)
      with ks(3) kk have "k2 < 10" by simp
      from digit_char_plain[OF this] show ?thesis by (simp add: hd Cons)
    qed
    show "take 2 ?s \<noteq> ''0X''"
    proof (cases ks')
      case Nil then show ?thesis by (simp add: hd)
    next
      case (Cons k2 ks2)
      with ks(3) kk have "k2 < 10" by simp
      from digit_char_plain[OF this] show ?thesis by (simp add: hd Cons)
    qed
  qed
  have 4: "digits_val 10 ?s = Some n"
    using digits_val_digits[OF ks(3) ks(2)] ks(1,4) by simp
  show ?thesis
    unfolding parseInt_str_def Let_def 1 using 2 3 4 by simp
qed

lemma parseInt_or_show_int: "1 \<le> p \<Longrightarrow> parseInt_or (Some (show_int p)) d = p"
  by (simp add: parseInt_or_def show_int_def parseInt_str_show_nat)

section \<open>Pages of a listing\<close>

lemma fetch_pages_all:
  assumes L: "1 \<le> L"
    and get: "\<And>p. 1 \<le> p \<Longrightarrow>
       get p = (200, Listing (take (nat L) (drop (nat ((p - 1) * L)) xs))
                      (page_info p L (int (length xs))))"
  shows "1 \<le> p \<Longrightarrow> int (length xs) \<le> (p - 1 + int fuel) * L \<Longrightarrow> 1 \<le> fuel \<Longrightarrow>
         \<exists>pages. fetch_pages fuel get p = Some pages \<and> concat pages = drop (nat ((p - 1) * L)) xs"
proof (induction fuel arbitrary: p)
  case 0
  then show ?case by simp
next
  case (Suc fuel)
  let ?ys = "drop (nat ((p - 1) * L)) xs"
  have gp: "get p = (200, Listing (take (nat L) ?ys) (page_info p L (int (length xs))))"
    using get Suc.prems(1) by simp
  have nn: "0 \<le> (p - 1) * L" using L Suc.prems(1) by simp
  show ?case
  proof (cases "p * L < int (length xs)")
    case False
    then have "int (length xs) - (p - 1) * L \<le> L" by (simp add: algebra_simps)
    then have "length ?ys \<le> nat L" using nn by simp
    then have "take (nat L) ?ys = ?ys" by simp
    with gp False show ?thesis by (simp add: page_info_def)
  next
    case True
    have f1: "1 \<le> fuel"
    proof (rule ccontr)
      assume "\<not> 1 \<le> fuel"
      then have "fuel = 0" by simp
      with Suc.prems(2) True show False by (simp add: algebra_simps)
    qed
    have "int (length xs) \<le> (p + 1 - 1 + int fuel) * L"
      using Suc.prems(2) by (simp add: algebra_simps)
    from Suc.IH[OF _ this f1] Suc.prems(1)
    obtain pages where pg: "fetch_pages fuel get (p + 1) = Some pages"
      "concat pages = drop (nat ((p + 1 - 1) * L)) xs" by auto
    have "(p + 1 - 1) * L = L + (p - 1) * L" by (simp add: algebra_simps)
    then have "nat ((p + 1 - 1) * L) = nat L + nat ((p - 1) * L)"
      using L nn by (simp only: nat_add_distrib)
    then have "drop (nat ((p + 1 - 1) * L)) xs = drop (nat L) ?ys"
      by (simp only: drop_drop)
    with pg have "concat (take (nat L) ?ys # pages) = ?ys"
      by (simp only: concat.simps append_take_drop_id)
    with pg(1) gp True show ?thesis
      by (simp add: page_info_def)
  qed
qed

lemma fetch_pages_total:
  assumes L: "1 \<le> L"
    and get: "\<And>p. 1 \<le> p \<Longrightarrow>
       get p = (200, Listing (take (nat L) (drop (nat ((p - 1) * L)) xs))
                      (page_info p L (int (length xs))))"
  shows "\<exists>pages. fetch_pages (Suc (length xs)) get 1 = Some pages \<and> concat pages = xs"
proof -
  have "int (length xs) \<le> (1 - 1 + int (Suc (length xs))) * L"
  proof -
    have "int (length xs) * 1 \<le> int (Suc (length xs)) * L"
      using L by (intro mult_mono) simp_all
    then show ?thesis by simp
  qed
  from fetch_pages_all[OF L get _ this] show ?thesis by simp
qed

lemma find_page_ok:
  "1 \<le> p \<Longrightarrow> 1 \<le> L \<Longrightarrow>
   find_page ((p - 1) * L) L xs = Some (take (nat L) (drop (nat ((p - 1) * L)) xs))"
proof -
  assume "1 \<le> p" "1 \<le> L"
  then have "\<not> (p - 1) * L < 0" "L \<noteq> 0" "\<bar>L\<bar> = L"
    by (simp_all add: mult_less_0_iff)
  then show ?thesis
    unfolding find_page_def by (simp only: if_False)
qed

lemma order_by_length [simp]: "length (order_by k desc docs) = length docs"
  by (simp add: order_by_def)

lemma with_page_other: "k \<noteq> ''page'' \<Longrightarrow> with_page q p k = q k"
  by (simp add: with_page_def)

lemma with_page_page: "with_page q p ''page'' = Some (show_int p)"
  by (simp add: with_page_def)

lemma artists_sort_length [simp]: "length (artists_sort q docs) = length docs"
  by (simp add: artists_sort_def split: option.splits)

lemma artists_query_with_page: "artists_query rt (with_page q p) = artists_query rt q"
  by (simp add: artists_query_def with_page_other)

lemma artists_sort_with_page: "artists_sort (with_page q p) = artists_sort q"
  by (rule ext) (simp add: artists_sort_def with_page_def split: option.splits)

lemma artists_page:
  assumes "artists_query rt q = Some query" "1 \<le> parseInt_or (q ''limit'') 10"
     "parseInt_or (q ''limit'') 10 \<le> 100" "1 \<le> p"
  shows "artists_get_all rt database (with_page q p)
     = (200, Listing (take (nat (parseInt_or (q ''limit'') 10))
                        (drop (nat ((p - 1) * parseInt_or (q ''limit'') 10))
                           (artists_sort q (filter query (artists database)))))
              (page_info p (parseInt_or (q ''limit'') 10)
                 (int (length (artists_sort q (filter query (artists database)))))))"
  using assms
  by (simp add: artists_get_all_def artists_query_with_page artists_sort_with_page
        with_page_other with_page_page parseInt_or_show_int Let_def find_page_ok countDocuments_def)

lemma albums_sort_length [simp]: "length (albums_sort q docs) = length docs"
  by (simp add: albums_sort_def split: option.splits)

lemma albums_query_with_page: "albums_query rt (with_page q p) = albums_query rt q"
  by (simp add: albums_query_def with_page_other)

lemma albums_sort_with_page: "albums_sort (with_page q p) = albums_sort q"
  by (rule ext) (simp add: albums_sort_def with_page_def split: option.splits)

lemma albums_page:
  assumes "albums_query rt q = Some query" "1 \<le> parseInt_or (q ''limit'') 10"
     "parseInt_or (q ''limit'') 10 \<le> 100" "1 \<le> p"
  shows "albums_get_all rt database (with_page q p)
     = (200, Listing (take (nat (parseInt_or (q ''limit'') 10))
                        (drop (nat ((p - 1) * parseInt_or (q ''limit'') 10))
                           (albums_sort q (filter query (albums database)))))
              (page_info p (parseInt_or (q ''limit'') 10)
                 (int (length (albums_sort q (filter query (albums database)))))))"
  using assms
  by (simp add: albums_get_all_def albums_query_with_page albums_sort_with_page
        with_page_other with_page_page parseInt_or_show_int Let_def find_page_ok countDocuments_def)

lemma songs_sort_length [simp]: "length (songs_sort q docs) = length docs"
  by (simp add: songs_sort_def split: option.splits)

lemma songs_query_with_page: "songs_query rt (with_page q p) = songs_query rt q"
  by (simp add: songs_query_def with_page_other)

lemma songs_sort_with_page: "songs_sort (with_page q p) = songs_sort q"
  by (rule ext) (simp add: songs_sort_def with_page_def split: option.splits)

lemma songs_page:
  assumes "songs_query rt q = Some query" "1 \<le> parseInt_or (q ''limit'') 10"
     "parseInt_or (q ''limit'') 10 \<le> 100" "1 \<le> p"
  shows "songs_get_all rt database (with_page q p)
     = (200, Listing (take (nat (parseInt_or (q ''limit'') 10))
                        (drop (nat ((p - 1) * parseInt_or (q ''limit'') 10))
                           (songs_sort q (filter query (songs database)))))
              (page_info p (parseInt_or (q ''limit'') 10)
                 (int (length (songs_sort q (filter query (songs database)))))))"
  using assms
  by (simp add: songs_get_all_def songs_query_with_page songs_sort_with_page
        with_page_other with_page_page parseInt_or_show_int Let_def find_page_ok countDocuments_def)

lemma playlists_sort_length [simp]: "length (playlists_sort q docs) = length docs"
  by (simp add: playlists_sort_def split: option.splits)

lemma playlists_query_with_page: "playlists_query rt (with_page q p) = playlists_query rt q"
  by (simp add: playlists_query_def with_page_other)

lemma playlists_sort_with_page: "playlists_sort (with_page q p) = playlists_sort q"
  by (rule ext) (simp add: playlists_sort_def with_page_def split: option.splits)

lemma playlists_page:
  assumes "playlists_query rt q = Some query" "1 \<le> parseInt_or (q ''limit'') 10"
     "parseInt_or (q ''limit'') 10 \<le> 100" "1 \<le> p"
  shows "playlists_get_all rt database (with_page q p)
     = (200, Listing (take (nat (parseInt_or (q ''limit'') 10))
                        (drop (nat ((p - 1) * parseInt_or (q ''limit'') 10))
                           (playlists_sort q (filter query (playlists database)))))
              (page_info p (parseInt_or (q ''limit'') 10)
                 (int (length (playlists_sort q (filter query (playlists database)))))))"
  using assms
  by (simp add: playlists_get_all_def playlists_query_with_page playlists_sort_with_page
        with_page_other with_page_page parseInt_or_show_int Let_def find_page_ok countDocuments_def)

section \<open>Listings\<close>

lemma parseInt_or_nonzero: "d \<noteq> 0 \<Longrightarrow> parseInt_or p d \<noteq> 0"
  by (simp add: parseInt_or_def split: option.splits num.splits)

lemma sum_length_concat: "sum_list (map length pages) = length (concat pages)"
  by (simp add: length_concat)

lemma artists_listing:
  assumes "artists_get_all rt database q = (st, Listing found info)"
  shows "\<exists>query. artists_query rt q = Some query \<and> st = 200
           \<and> info = pagination_of (parseInt_or (q ''page'') 1) (parseInt_or (q ''limit'') 10)
                      (int (length (filter query (artists database))))"
proof -
  have nz: "parseInt_or (q ''limit'') 10 \<noteq> 0" by (rule parseInt_or_nonzero) simp
  show ?thesis
    using assms page_info_eq[OF nz]
    by (auto simp: artists_get_all_def Let_def internal_error_def
          countDocuments_def split: option.splits if_splits)
qed

lemma artists_all_pages:
  assumes "artists_query rt q = Some query" "1 \<le> parseInt_or (q ''limit'') 10"
     "parseInt_or (q ''limit'') 10 \<le> 100"
  shows "\<exists>pages. fetch_pages (Suc (length (filter query (artists database))))
                   (\<lambda>p. artists_get_all rt database (with_page q p)) 1 = Some pages
               \<and> concat pages = artists_sort q (filter query (artists database))
               \<and> sum_list (map length pages) = length (filter query (artists database))"
proof -
  let ?xs = "artists_sort q (filter query (artists database))"
  from fetch_pages_total[of "parseInt_or (q ''limit'') 10"
      "\<lambda>p. artists_get_all rt database (with_page q p)" ?xs, OF assms(2)] artists_page[OF assms]
  obtain pages where "fetch_pages (Suc (length ?xs))
                   (\<lambda>p. artists_get_all rt database (with_page q p)) 1 = Some pages"
     "concat pages = ?xs" by blast
  then show ?thesis by (auto simp: sum_length_concat)
qed



lemma albums_listing:
  assumes "albums_get_all rt database q = (st, Listing found info)"
  shows "\<exists>query. albums_query rt q = Some query \<and> st = 200
           \<and> info = pagination_of (parseInt_or (q ''page'') 1) (parseInt_or (q ''limit'') 10)
                      (int (length (filter query (albums database))))"
proof -
  have nz: "parseInt_or (q ''limit'') 10 \<noteq> 0" by (rule parseInt_or_nonzero) simp
  show ?thesis
    using assms page_info_eq[OF nz]
    by (auto simp: albums_get_all_def Let_def internal_error_def
          countDocuments_def split: option.splits if_splits)
qed

lemma albums_all_pages:
  assumes "albums_query rt q = Some query" "1 \<le> parseInt_or (q ''limit'') 10"
     "parseInt_or (q ''limit'') 10 \<le> 100"
  shows "\<exists>pages. fetch_pages (Suc (length (filter query (albums database))))
                   (\<lambda>p. albums_get_all rt database (with_page q p)) 1 = Some pages
               \<and> concat pages = albums_sort q (filter query (albums database))
               \<and> sum_list (map length pages) = length (filter query (albums database))"
proof -
  let ?xs = "albums_sort q (filter query (albums database))"
  from fetch_pages_total[of "parseInt_or (q ''limit'') 10"
      "\<lambda>p. albums_get_all rt database (with_page q p)" ?xs, OF assms(2)] albums_page[OF assms]
  obtain pages where "fetch_pages (Suc (length ?xs))
                   (\<lambda>p. albums_get_all rt database (with_page q p)) 1 = Some pages"
     "concat pages = ?xs" by blast
  then show ?thesis by (auto simp: sum_length_concat)
qed



lemma songs_listing:
  assumes "songs_get_all rt database q = (st, Listing found info)"
  shows "\<exists>query. songs_query rt q = Some query \<and> st = 200
           \<and> info = pagination_of (parseInt_or (q ''page'') 1) (parseInt_or (q ''limit'') 10)
                      (int (length (filter query (songs database))))"
proof -
  have nz: "parseInt_or (q ''limit'') 10 \<noteq> 0" by (rule parseInt_or_nonzero) simp
  show ?thesis
    using assms page_info_eq[OF nz]
    by (auto simp: songs_get_all_def Let_def internal_error_def
          countDocuments_def split: option.splits if_splits)
qed

lemma songs_all_pages:
  assumes "songs_query rt q = Some query" "1 \<le> parseInt_or (q ''limit'') 10"
     "parseInt_or (q ''limit'') 10 \<le> 100"
  shows "\<exists>pages. fetch_pages (Suc (length (filter query (songs database))))
                   (\<lambda>p. songs_get_all rt database (with_page q p)) 1 = Some pages
               \<and> concat pages = songs_sort q (filter query (songs database))
               \<and> sum_list (map length pages) = length (filter query (songs database))"
proof -
  let ?xs = "songs_sort q (filter query (songs database))"
  from fetch_pages_total[of "parseInt_or (q ''limit'') 10"
      "\<lambda>p. songs_get_all rt database (with_page q p)" ?xs, OF assms(2)] songs_page[OF assms]
  obtain pages where "fetch_pages (Suc (length ?xs))
                   (\<lambda>p. songs_get_all rt database (with_page q p)) 1 = Some pages"
     "concat pages = ?xs" by blast
  then show ?thesis by (auto simp: sum_length_concat)
qed



lemma playlists_listing:
  assumes "playlists_get_all rt database q = (st, Listing found info)"
  shows "\<exists>query. playlists_query rt q = Some query \<and> st = 200
           \<and> info = pagination_of (parseInt_or (q ''page'') 1) (parseInt_or (q ''limit'') 10)
                      (int (length (filter query (playlists database))))"
proof -
  have nz: "parseInt_or (q ''limit'') 10 \<noteq> 0" by (rule parseInt_or_nonzero) simp
  show ?thesis
    using assms page_info_eq[OF nz]
    by (auto simp: playlists_get_all_def Let_def internal_error_def
          countDocuments_def split: option.splits if_splits)
qed

lemma playlists_all_pages:
  assumes "playlists_query rt q = Some query" "1 \<le> parseInt_or (q ''limit'') 10"
     "parseInt_or (q ''limit'') 10 \<le> 100"
  shows "\<exists>pages. fetch_pages (Suc (length (filter query (playlists database))))
                   (\<lambda>p. playlists_get_all rt database (with_page q p)) 1 = Some pages
               \<and> concat pages = playlists_sort q (filter query (playlists database))
               \<and> sum_list (map length pages) = length (filter query (playlists database))"
proof -
  let ?xs = "playlists_sort q (filter query (playlists database))"
  from fetch_pages_total[of "parseInt_or (q ''limit'') 10"
      "\<lambda>p. playlists_get_all rt database (with_page q p)" ?xs, OF assms(2)] playlists_page[OF assms]
  obtain pages where "fetch_pages (Suc (length ?xs))
                   (\<lambda>p. playlists_get_all rt database (with_page q p)) 1 = Some pages"
     "concat pages = ?xs" by blast
  then show ?thesis by (auto simp: sum_length_concat)
qed



text \<open>
  C1, amended. A listing of any of the four collections that is answered with a
  page has status 200 and the pagination \<open>currentPage = page\<close>,
  \<open>totalPages = \<lceil>totalItems / limit\<rceil>\<close>, \<open>hasNext = (page * limit < totalItems)\<close>,
  \<open>hasPrev = (page > 1)\<close>, where \<open>totalItems\<close> counts the documents that match the
  filter and \<open>page\<close> and \<open>limit\<close> are the parsed parameters. When the parsed limit
  is between 1 and 100, a client that asks for page 1 and for the next page while
  \<open>hasNext\<close> holds finishes within \<open>totalItems + 1\<close> requests, and the pages it
  was sent, one after the other, are the matching documents in the order of the
  sort: their lengths sum to \<open>totalItems\<close>.
\<close>

theorem listing_pagination:
  "(\<forall>st found info.
       artists_get_all rt database q = (st, Listing found info) \<longrightarrow>
       (\<exists>query. artists_query rt q = Some query \<and> st = 200
          \<and> info = pagination_of (parseInt_or (q ''page'') 1) (parseInt_or (q ''limit'') 10)
                     (int (length (filter query (artists database))))))
   \<and> (\<forall>st found info.
       albums_get_all rt database q = (st, Listing found info) \<longrightarrow>
       (\<exists>query. albums_query rt q = Some query \<and> st = 200
          \<and> info = pagination_of (parseInt_or (q ''page'') 1) (parseInt_or (q ''limit'') 10)
                     (int (length (filter query (albums database))))))
   \<and> (\<forall>st found info.
       songs_get_all rt database q = (st, Listing found info) \<longrightarrow>
       (\<exists>query. songs_query rt q = Some query \<and> st = 200
          \<and> info = pagination_of (parseInt_or (q ''page'') 1) (parseInt_or (q ''limit'') 10)
                     (int (length (filter query (songs database))))))
   \<and> (\<forall>st found info.
       playlists_get_all rt database q = (st, Listing found info) \<longrightarrow>
       (\<exists>query. playlists_query rt q = Some query \<and> st = 200
          \<and> info = pagination_of (parseInt_or (q ''page'') 1) (parseInt_or (q ''limit'') 10)
                     (int (length (filter query (playlists database))))))
   \<and> (\<forall>query.
       artists_query rt q = Some query \<and> 1 \<le> parseInt_or (q ''limit'') 10
         \<and> parseInt_or (q ''limit'') 10 \<le> 100 \<longrightarrow>
       (\<exists>pages. fetch_pages (Suc (length (filter query (artists database))))
                   (\<lambda>p. artists_get_all rt database (with_page q p)) 1 = Some pages
          \<and> concat pages = artists_sort q (filter query (artists database))
          \<and> sum_list (map length pages) = length (filter query (artists database))))
   \<and> (\<forall>query.
       albums_query rt q = Some query \<and> 1 \<le> parseInt_or (q ''limit'') 10
         \<and> parseInt_or (q ''limit'') 10 \<le> 100 \<longrightarrow>
       (\<exists>pages. fetch_pages (Suc (length (filter query (albums database))))
                   (\<lambda>p. albums_get_all rt database (with_page q p)) 1 = Some pages
          \<and> concat pages = albums_sort q (filter query (albums database))
          \<and> sum_list (map length pages) = length (filter query (albums database))))
   \<and> (\<forall>query.
       songs_query rt q = Some query \<and> 1 \<le> parseInt_or (q ''limit'') 10
         \<and> parseInt_or (q ''limit'') 10 \<le> 100 \<longrightarrow>
       (\<exists>pages. fetch_pages (Suc (length (filter query (songs database))))
                   (\<lambda>p. songs_get_all rt database (with_page q p)) 1 = Some pages
          \<and> concat pages = songs_sort q (filter query (songs database))
          \<and> sum_list (map length pages) = length (filter query (songs database))))
   \<and> (\<forall>query.
       playlists_query rt q = Some query \<and> 1 \<le> parseInt_or (q ''limit'') 10
         \<and> parseInt_or (q ''limit'') 10 \<le> 100 \<longrightarrow>
       (\<exists>pages. fetch_pages (Suc (length (filter query (playlists database))))
                   (\<lambda>p. playlists_get_all rt database (with_page q p)) 1 = Some pages
          \<and> concat pages = playlists_sort q (filter query (playlists database))
          \<and> sum_list (map length pages) = length (filter query (playlists database))))"
  using artists_listing[of rt database q] albums_listing[of rt database q]
    songs_listing[of rt database q] playlists_listing[of rt database q]
    artists_all_pages[of rt q _ database] albums_all_pages[of rt q _ database]
    songs_all_pages[of rt q _ database] playlists_all_pages[of rt q _ database]
  by (intro conjI allI impI) blast+

theorem listing_pagination_witness:
  "\<exists>query pages.
     artists_query example_runtime (limit_query ''1'') = Some query
     \<and> 1 \<le> parseInt_or (limit_query ''1'' ''limit'') 10
     \<and> parseInt_or (limit_query ''1'' ''limit'') 10 \<le> 100
     \<and> artists_get_all example_runtime example_db (limit_query ''1'')
         = (200, Listing [artist_A]
                   (pagination_of 1 1 (int (length (filter query (artists example_db))))))
     \<and> fetch_pages (Suc (length (filter query (artists example_db))))
           (\<lambda>p. artists_get_all example_runtime example_db (with_page (limit_query ''1'') p)) 1
         = Some pages
     \<and> sum_list (map length pages) = length (filter query (artists example_db))"
proof -
  have l: "parseInt_or (limit_query ''1'' ''limit'') 10 = 1"
    by code_simp
  have p: "parseInt_or (limit_query ''1'' ''page'') 1 = 1"
    by code_simp
  have "artists_get_all example_runtime example_db (limit_query ''1'')
        = (200, Listing [artist_A] \<lparr>currentPage = 1, totalPages = 1, totalItems = 1,
                                     hasNext = False, hasPrev = False\<rparr>)"
    by code_simp
  with listing_pagination[of example_runtime example_db "limit_query ''1''"] l p
  obtain query where query: "artists_query example_runtime (limit_query ''1'') = Some query"
    "artists_get_all example_runtime example_db (limit_query ''1'')
       = (200, Listing [artist_A]
                 (pagination_of 1 1 (int (length (filter query (artists example_db))))))"
    by (metis (no_types, lifting))
  with listing_pagination[of example_runtime example_db "limit_query ''1''"] l
  obtain pages where
    "fetch_pages (Suc (length (filter query (artists example_db))))
           (\<lambda>p. artists_get_all example_runtime example_db (with_page (limit_query ''1'') p)) 1
         = Some pages"
    "sum_list (map length pages) = length (filter query (artists example_db))"
    by (metis (no_types, lifting) one_le_numeral order_refl)
  with query l show ?thesis by auto
qed

text \<open>
  The claim as stated fails for a negative limit, which the handlers let through:
  with \<open>?limit=-5\<close> page 1 is answered with \<open>hasNext\<close> true (and \<open>totalPages\<close> 0 for
  one item), and page 2 is a 500, because the store refuses the negative \<open>skip\<close>.
  The client never sees \<open>hasNext\<close> false.
\<close>

theorem listing_pagination_counterexample:
  "artists_get_all example_runtime example_db (with_page (limit_query ''-5'') 1)
     = (200, Listing [artist_A] \<lparr>currentPage = 1, totalPages = 0, totalItems = 1,
                                  hasNext = True, hasPrev = False\<rparr>)
   \<and> artists_get_all example_runtime example_db (with_page (limit_query ''-5'') 2)
       = (500, Error ''Internal server error'' ''Failed to fetch artists'')
   \<and> fetch_pages 3
        (\<lambda>p. artists_get_all example_runtime example_db (with_page (limit_query ''-5'') p)) 1
       = None"
  by code_simp




section \<open>Creating documents\<close>

lemma findOne_None_iff: "findOne p docs = None \<longleftrightarrow> (\<forall>d \<in> set docs. \<not> p d)"
  by (auto simp: findOne_def find_None_iff)

lemma findById_Some_iff: "(\<exists>d. findById oid docs = Some d) \<longleftrightarrow> oid \<in> fst ` set docs"
proof -
  have "findById oid docs \<noteq> None \<longleftrightarrow> oid \<in> fst ` set docs"
    by (auto simp: findById_def findOne_None_iff)
  then show ?thesis by auto
qed

lemma findById_mem: "findById oid docs = Some d \<Longrightarrow> d \<in> set docs \<and> fst d = oid"
  by (auto simp: findById_def findOne_def find_Some_iff)





lemma songs_post_created:
  assumes "songs_post rt nid database body = (resp, database')" "fst resp = 201"
  shows "\<exists>data album_oid artist_oid. songs_data rt True body = Some data
           \<and> validateSong rt data = []
           \<and> oidNew rt (song_album_id data) = Some album_oid
           \<and> album_oid \<in> fst ` set (albums database)
           \<and> oidNew rt (song_artist_id data) = Some artist_oid
           \<and> artist_oid \<in> fst ` set (artists database)
           \<and> database' = database\<lparr>songs := songs database @ [(nid, data)]\<rparr>"
  using assms
  by (auto simp: songs_post_def Let_def internal_error_def validation_failed_def insertOne_def
        findById_Some_iff[symmetric]
        split: option.splits if_splits)





lemma artists_post_created:
  assumes "artists_post rt nid database body = (resp, database')" "fst resp = 201"
  shows "\<exists>data. artists_post_data rt body = Some data \<and> validateArtist rt data = Some []
           \<and> database' = database\<lparr>artists := artists database @ [(nid, data)]\<rparr>"
  using assms
  by (auto simp: artists_post_def Let_def internal_error_def validation_failed_def insertOne_def
        split: option.splits if_splits)












section \<open>The track number of a new song\<close>

lemma songs_data_falsy_track:
  assumes "\<not> truthy v"
  shows "songs_data rt creating (body(''track_number'' := v))
         = songs_data rt creating (body(''track_number'' := JUndefined))"
  using assms by (simp add: songs_data_def)

lemma songs_data_track_None:
  assumes "\<not> truthy v" "songs_data rt creating (body(''track_number'' := v)) = Some data"
  shows "song_track_number data = None"
  using assms by (auto simp: songs_data_def split: Option.bind_splits)

lemma validateSong_no_track_error:
  assumes "song_track_number data = None"
  shows "''Track number must be a positive integer'' \<notin> set (validateSong rt data)
         \<and> ''Track number cannot exceed 200'' \<notin> set (validateSong rt data)"
  using assms by (simp add: validateSong_def truthy_track_def)

lemma songs_post_no_track_conflict:
  assumes "songs_post rt nid database body = (resp, database')"
    and "songs_data rt True body = Some data" "song_track_number data = None"
  shows "snd resp \<noteq> Error ''Track number already exists''
                       ''This album already has a song with this track number''"
  using assms
  by (auto simp: songs_post_def Let_def internal_error_def validation_failed_def truthy_track_def
        split: option.splits if_splits)

text \<open>
  C10. In \<open>POST /songs\<close> a \<open>track_number\<close> that is falsy (0, the empty string,
  \<open>false\<close>, \<open>null\<close>, or absent) becomes \<open>null\<close> before the validation: the
  request is answered exactly as the same request without \<open>track_number\<close>; the
  sanitised record has \<open>track_number\<close> \<open>null\<close> and gets neither message of the
  track-number rule; the answer is never "Track number already exists"; and when
  the song is created it is stored with \<open>track_number\<close> \<open>null\<close>.
\<close>

theorem songs_post_falsy_track_number:
  assumes "\<not> truthy v"
  shows "songs_post rt nid database (body(''track_number'' := v))
           = songs_post rt nid database (body(''track_number'' := JUndefined))
         \<and> (\<forall>data. songs_data rt True (body(''track_number'' := v)) = Some data \<longrightarrow>
               song_track_number data = None
               \<and> ''Track number must be a positive integer'' \<notin> set (validateSong rt data)
               \<and> ''Track number cannot exceed 200'' \<notin> set (validateSong rt data))
         \<and> snd (fst (songs_post rt nid database (body(''track_number'' := v))))
             \<noteq> Error ''Track number already exists''
                      ''This album already has a song with this track number''
         \<and> (fst (fst (songs_post rt nid database (body(''track_number'' := v)))) = 201 \<longrightarrow>
               (\<exists>data. song_track_number data = None
                  \<and> snd (songs_post rt nid database (body(''track_number'' := v)))
                      = database\<lparr>songs := songs database @ [(nid, data)]\<rparr>))"
proof (intro conjI allI impI)
  show "songs_post rt nid database (body(''track_number'' := v))
           = songs_post rt nid database (body(''track_number'' := JUndefined))"
    unfolding songs_post_def songs_data_falsy_track[OF assms] ..
next
  fix data
  assume d: "songs_data rt True (body(''track_number'' := v)) = Some data"
  from songs_data_track_None[OF assms d] show "song_track_number data = None" .
  from validateSong_no_track_error[OF songs_data_track_None[OF assms d]]
  show "''Track number must be a positive integer'' \<notin> set (validateSong rt data)"
    "''Track number cannot exceed 200'' \<notin> set (validateSong rt data)"
    by simp_all
next
  show "snd (fst (songs_post rt nid database (body(''track_number'' := v))))
             \<noteq> Error ''Track number already exists''
                      ''This album already has a song with this track number''"
  proof (cases "songs_data rt True (body(''track_number'' := v))")
    case None
    then show ?thesis by (simp add: songs_post_def internal_error_def)
  next
    case (Some data)
    from songs_post_no_track_conflict[OF surjective_pairing Some
        songs_data_track_None[OF assms Some]]
    show ?thesis .
  qed
next
  assume c: "fst (fst (songs_post rt nid database (body(''track_number'' := v)))) = 201"
  from songs_post_created[OF surjective_pairing c]
  obtain data where d: "songs_data rt True (body(''track_number'' := v)) = Some data"
    "snd (songs_post rt nid database (body(''track_number'' := v)))
       = database\<lparr>songs := songs database @ [(nid, data)]\<rparr>"
    by blast
  with songs_data_track_None[OF assms d(1)]
  show "\<exists>data. song_track_number data = None
                  \<and> snd (songs_post rt nid database (body(''track_number'' := v)))
                      = database\<lparr>songs := songs database @ [(nid, data)]\<rparr>"
    by blast
qed

theorem songs_post_falsy_track_number_witness:
  "\<not> truthy (JNum 0)
   \<and> songs_post example_runtime ''507f1f77bcf86cd799439015'' example_db
        ((song_body ''S2'' JUndefined)(''track_number'' := JNum 0))
     = songs_post example_runtime ''507f1f77bcf86cd799439015'' example_db
        ((song_body ''S2'' JUndefined)(''track_number'' := JUndefined))
   \<and> fst (fst (songs_post example_runtime ''507f1f77bcf86cd799439015'' example_db
                  ((song_body ''S2'' JUndefined)(''track_number'' := JNum 0)))) = 201
   \<and> (\<exists>data. song_track_number data = None
          \<and> snd (songs_post example_runtime ''507f1f77bcf86cd799439015'' example_db
                    ((song_body ''S2'' JUndefined)(''track_number'' := JNum 0)))
              = example_db\<lparr>songs := songs example_db
                                       @ [(''507f1f77bcf86cd799439015'', data)]\<rparr>)"
proof -
  have f: "\<not> truthy (JNum 0)" by simp
  have c: "fst (fst (songs_post example_runtime ''507f1f77bcf86cd799439015'' example_db
                  ((song_body ''S2'' JUndefined)(''track_number'' := JNum 0)))) = 201"
    by code_simp
  from songs_post_falsy_track_number[OF f, of example_runtime "''507f1f77bcf86cd799439015''"
      example_db "song_body ''S2'' JUndefined"] f c
  show ?thesis by blast
qed

section \<open>Duplicates\<close>
























lemma findOne_None_list_ex: "findOne p docs = None \<longleftrightarrow> \<not> list_ex p docs"
  by (simp add: findOne_None_iff list_ex_iff)

lemma artists_post_409_iff:
  assumes "artists_post_data rt body = Some data" "validateArtist rt data = Some []"
    and "toString (artist_name data) = Some name" "regExp rt (''^'' @ name @ ''$'') = Some m"
  shows "fst (fst (artists_post rt nid database body)) = 409
         \<longleftrightarrow> list_ex (\<lambda>d. field_matches m (artist_name (snd d))) (artists database)"
proof (cases "findOne (\<lambda>d. field_matches m (artist_name (snd d))) (artists database)")
  case None
  then show ?thesis
    using assms
    by (simp add: artists_post_def findOne_None_list_ex[symmetric] internal_error_def
          split: option.splits)
next
  case (Some e)
  then have "list_ex (\<lambda>d. field_matches m (artist_name (snd d))) (artists database)"
    using findOne_None_list_ex[of "\<lambda>d. field_matches m (artist_name (snd d))" "artists database"]
    by simp
  with Some show ?thesis using assms by (simp add: artists_post_def)
qed

lemma albums_post_409_iff:
  assumes "albums_post_data rt body = Some data" "validateAlbum rt data = []"
    and "oidNew rt (album_artist_id data) = Some oid" "oid \<in> fst ` set (artists database)"
    and "toString (album_title data) = Some title" "regExp rt (''^'' @ title @ ''$'') = Some m"
  shows "fst (fst (albums_post rt nid database body)) = 409
         \<longleftrightarrow> list_ex (\<lambda>d. field_matches m (album_title (snd d))
                          \<and> field_eq (album_artist_id (snd d)) (album_artist_id data))
               (albums database)"
proof -
  let ?p = "\<lambda>d. field_matches m (album_title (snd d))
                 \<and> field_eq (album_artist_id (snd d)) (album_artist_id data)"
  from assms(4) obtain a where a: "findById oid (artists database) = Some a"
    using findById_Some_iff by metis
  show ?thesis
  proof (cases "findOne ?p (albums database)")
    case None
    then show ?thesis
      using assms a
      by (simp add: albums_post_def Let_def findOne_None_list_ex[symmetric] internal_error_def
            split: option.splits)
  next
    case (Some e)
    then have "list_ex ?p (albums database)"
      using findOne_None_list_ex[of ?p "albums database"] by simp
    with Some show ?thesis using assms a by (simp add: albums_post_def Let_def)
  qed
qed

lemma songs_post_title_409_iff:
  assumes "songs_data rt True body = Some data" "validateSong rt data = []"
    and "oidNew rt (song_album_id data) = Some album_oid" "album_oid \<in> fst ` set (albums database)"
    and "oidNew rt (song_artist_id data) = Some artist_oid"
      "artist_oid \<in> fst ` set (artists database)"
    and "toString (song_title data) = Some title" "regExp rt (''^'' @ title @ ''$'') = Some m"
  shows "fst (songs_post rt nid database body)
           = (409, Error ''Song already exists''
                     ''This album already has a song with this title'')
         \<longleftrightarrow> list_ex (\<lambda>d. field_matches m (song_title (snd d))
                          \<and> field_eq (song_album_id (snd d)) (song_album_id data))
               (songs database)"
proof -
  let ?p = "\<lambda>d. field_matches m (song_title (snd d))
                 \<and> field_eq (song_album_id (snd d)) (song_album_id data)"
  from assms(4) obtain a where a: "findById album_oid (albums database) = Some a"
    using findById_Some_iff by metis
  from assms(6) obtain b where b: "findById artist_oid (artists database) = Some b"
    using findById_Some_iff by metis
  show ?thesis
  proof (cases "findOne ?p (songs database)")
    case None
    then show ?thesis
      using assms a b
      by (simp add: songs_post_def Let_def findOne_None_list_ex[symmetric] internal_error_def
            split: option.splits)
  next
    case (Some e)
    then have "list_ex ?p (songs database)"
      using findOne_None_list_ex[of ?p "songs database"] by simp
    with Some show ?thesis using assms a b by (simp add: songs_post_def Let_def)
  qed
qed

lemma artists_post_regexp_throws:
  assumes "artists_post_data rt body = Some data" "validateArtist rt data = Some []"
    and "toString (artist_name data) = Some name" "regExp rt (''^'' @ name @ ''$'') = None"
  shows "artists_post rt nid database body
         = ((500, Error ''Internal server error'' ''Failed to create artist''), database)"
  using assms by (simp add: artists_post_def internal_error_def)


text \<open>
  C9. On create the name (or title) is compared by compiling \<open>^name$\<close> with
  flag \<open>i\<close>, not by equality of strings: once the record is valid and its
  references exist, \<open>POST /artists\<close>, \<open>POST /albums\<close> and \<open>POST /songs\<close> answer
  with their duplicate error exactly when the compiled expression matches the
  name of a stored document (of the same artist, of the same album), and
  \<open>POST /artists\<close> is a 500 when the name does not compile. So there are names
  that differ even when case is ignored, and yet the second cannot be created
  after the first: with \<open>abc\<close> stored, \<open>POST /artists\<close> with the name \<open>a.c\<close> is
  answered 409.
\<close>

theorem duplicate_name_is_regexp:
  "(\<forall>data name m.
      artists_post_data rt body = Some data \<and> validateArtist rt data = Some []
      \<and> toString (artist_name data) = Some name \<and> regExp rt (''^'' @ name @ ''$'') = Some m \<longrightarrow>
      (fst (fst (artists_post rt nid database body)) = 409
       \<longleftrightarrow> list_ex (\<lambda>d. field_matches m (artist_name (snd d))) (artists database)))
   \<and> (\<forall>data oid title m.
      albums_post_data rt body = Some data \<and> validateAlbum rt data = []
      \<and> oidNew rt (album_artist_id data) = Some oid \<and> oid \<in> fst ` set (artists database)
      \<and> toString (album_title data) = Some title \<and> regExp rt (''^'' @ title @ ''$'') = Some m \<longrightarrow>
      (fst (fst (albums_post rt nid database body)) = 409
       \<longleftrightarrow> list_ex (\<lambda>d. field_matches m (album_title (snd d))
                        \<and> field_eq (album_artist_id (snd d)) (album_artist_id data))
             (albums database)))
   \<and> (\<forall>data album_oid artist_oid title m.
      songs_data rt True body = Some data \<and> validateSong rt data = []
      \<and> oidNew rt (song_album_id data) = Some album_oid
      \<and> album_oid \<in> fst ` set (albums database)
      \<and> oidNew rt (song_artist_id data) = Some artist_oid
      \<and> artist_oid \<in> fst ` set (artists database)
      \<and> toString (song_title data) = Some title \<and> regExp rt (''^'' @ title @ ''$'') = Some m \<longrightarrow>
      (fst (songs_post rt nid database body)
         = (409, Error ''Song already exists''
                   ''This album already has a song with this title'')
       \<longleftrightarrow> list_ex (\<lambda>d. field_matches m (song_title (snd d))
                        \<and> field_eq (song_album_id (snd d)) (song_album_id data))
             (songs database)))
   \<and> (\<forall>data name.
      artists_post_data rt body = Some data \<and> validateArtist rt data = Some []
      \<and> toString (artist_name data) = Some name \<and> regExp rt (''^'' @ name @ ''$'') = None \<longrightarrow>
      artists_post rt nid database body
      = ((500, Error ''Internal server error'' ''Failed to create artist''), database))
   \<and> toLowerCase ''a.c'' \<noteq> toLowerCase ''abc''
   \<and> fst (fst (artists_post example_runtime ''507f1f77bcf86cd799439011'' empty_db
                  (artist_body ''abc''))) = 201
   \<and> artists_post example_runtime ''507f1f77bcf86cd799439015''
        (snd (artists_post example_runtime ''507f1f77bcf86cd799439011'' empty_db
                (artist_body ''abc'')))
        (artist_body ''a.c'')
      = ((409, Error ''Artist already exists''
                 ''An artist with this name already exists in the database''),
         snd (artists_post example_runtime ''507f1f77bcf86cd799439011'' empty_db
                (artist_body ''abc'')))"
proof (intro conjI allI impI)
  fix data name m
  assume "artists_post_data rt body = Some data \<and> validateArtist rt data = Some []
      \<and> toString (artist_name data) = Some name \<and> regExp rt (''^'' @ name @ ''$'') = Some m"
  then show "fst (fst (artists_post rt nid database body)) = 409
       \<longleftrightarrow> list_ex (\<lambda>d. field_matches m (artist_name (snd d))) (artists database)"
    using artists_post_409_iff by blast
next
  fix data oid title m
  assume "albums_post_data rt body = Some data \<and> validateAlbum rt data = []
      \<and> oidNew rt (album_artist_id data) = Some oid \<and> oid \<in> fst ` set (artists database)
      \<and> toString (album_title data) = Some title \<and> regExp rt (''^'' @ title @ ''$'') = Some m"
  then show "fst (fst (albums_post rt nid database body)) = 409
       \<longleftrightarrow> list_ex (\<lambda>d. field_matches m (album_title (snd d))
                        \<and> field_eq (album_artist_id (snd d)) (album_artist_id data))
             (albums database)"
    using albums_post_409_iff by blast
next
  fix data album_oid artist_oid title m
  assume "songs_data rt True body = Some data \<and> validateSong rt data = []
      \<and> oidNew rt (song_album_id data) = Some album_oid
      \<and> album_oid \<in> fst ` set (albums database)
      \<and> oidNew rt (song_artist_id data) = Some artist_oid
      \<and> artist_oid \<in> fst ` set (artists database)
      \<and> toString (song_title data) = Some title \<and> regExp rt (''^'' @ title @ ''$'') = Some m"
  then show "fst (songs_post rt nid database body)
         = (409, Error ''Song already exists''
                   ''This album already has a song with this title'')
       \<longleftrightarrow> list_ex (\<lambda>d. field_matches m (song_title (snd d))
                        \<and> field_eq (song_album_id (snd d)) (song_album_id data))
             (songs database)"
    using songs_post_title_409_iff by blast
next
  fix data name
  assume "artists_post_data rt body = Some data \<and> validateArtist rt data = Some []
      \<and> toString (artist_name data) = Some name \<and> regExp rt (''^'' @ name @ ''$'') = None"
  then show "artists_post rt nid database body
      = ((500, Error ''Internal server error'' ''Failed to create artist''), database)"
    using artists_post_regexp_throws by blast
next
  show "toLowerCase ''a.c'' \<noteq> toLowerCase ''abc''"
    by code_simp
  show "fst (fst (artists_post example_runtime ''507f1f77bcf86cd799439011'' empty_db
                  (artist_body ''abc''))) = 201"
    by code_simp
  show "artists_post example_runtime ''507f1f77bcf86cd799439015''
        (snd (artists_post example_runtime ''507f1f77bcf86cd799439011'' empty_db
                (artist_body ''abc'')))
        (artist_body ''a.c'')
      = ((409, Error ''Artist already exists''
                 ''An artist with this name already exists in the database''),
         snd (artists_post example_runtime ''507f1f77bcf86cd799439011'' empty_db
                (artist_body ''abc'')))"
    by code_simp
qed

theorem duplicate_name_is_regexp_witness:
  "\<exists>data m.
     artists_post_data example_runtime (artist_body ''a.c'') = Some data
     \<and> validateArtist example_runtime data = Some []
     \<and> toString (artist_name data) = Some ''a.c''
     \<and> regExp example_runtime (''^'' @ ''a.c'' @ ''$'') = Some m
     \<and> list_ex (\<lambda>d. field_matches m (artist_name (snd d))) (artists example_db)
     \<and> map (\<lambda>d. artist_name (snd d)) (artists example_db) = [JStr ''abc'']
     \<and> fst (fst (artists_post example_runtime ''507f1f77bcf86cd799439015'' example_db
                    (artist_body ''a.c''))) = 409"
proof -
  let ?data = "\<lparr>artist_name = JStr ''a.c'', artist_genre = JStr ''Rock'',
     artist_country = JStr ''UK'', artist_formed_year = Num 2000,
     artist_members = JArr [JStr ''X''], artist_biography = JStr [],
     artist_website = JStr [], artist_social_media = JObj [],
     artist_createdAt = Some 1762128000000,
     artist_updatedAt = 1762128000000\<rparr>"
  let ?m = "rx_search [Bol, Lit CHR ''a'', AnyChar, Lit CHR ''c'', Eol] True"
  have 1: "artists_post_data example_runtime (artist_body ''a.c'') = Some ?data"
    by code_simp
  have 2: "validateArtist example_runtime ?data = Some []"
    by code_simp
  have 3: "toString (artist_name ?data) = Some ''a.c''"
    by simp
  have 4: "regExp example_runtime (''^'' @ ''a.c'' @ ''$'') = Some ?m"
    by (simp add: example_runtime_def example_regExp_def rx_cons_def)
  have 5: "list_ex (\<lambda>d. field_matches ?m (artist_name (snd d))) (artists example_db)"
    by (simp add: field_matches_def example_db_def artist_A_def lower_char_def)
  have 6: "map (\<lambda>d. artist_name (snd d)) (artists example_db) = [JStr ''abc'']"
    by (simp add: example_db_def artist_A_def)
  have 7: "fst (fst (artists_post example_runtime ''507f1f77bcf86cd799439015'' example_db
                    (artist_body ''a.c''))) = 409"
    using duplicate_name_is_regexp[of example_runtime "artist_body ''a.c''"
        "''507f1f77bcf86cd799439015''" example_db, THEN conjunct1, rule_format, OF conjI[OF 1 conjI[OF 2 conjI[OF 3 4]]]] 5
    by (simp only:)
  show ?thesis
    by (intro exI[of _ ?data] exI[of _ ?m] conjI 1 2 3 4 5 6 7)
qed

section \<open>Songs of a playlist\<close>












lemma find_filter: "List.find P (filter Q xs) = List.find (\<lambda>x. P x \<and> Q x) xs"
  by (induction xs) auto

lemma findOne_in_found:
  assumes "s \<in> S"
  shows "findOne (\<lambda>song. fst song = s) (filter (\<lambda>song. fst song \<in> S) docs) = findById s docs"
proof -
  have h: "(\<lambda>x. fst x = s \<and> fst x \<in> S) = (\<lambda>x. fst x = s)"
    using assms by auto
  show ?thesis
    unfolding findOne_def findById_def find_filter h ..
qed

lemma findById_not_found:
  assumes "s \<in> S" "filter (\<lambda>song. fst song \<in> S) docs = []"
  shows "findById s docs = None"
proof -
  have "\<forall>d \<in> set docs. fst d \<noteq> s"
    using assms by (auto simp: filter_empty_conv)
  then show ?thesis by (simp add: findById_def findOne_None_iff)
qed

lemma sequence_map_Some: "sequence (map (\<lambda>x. Some (f x)) xs) = Some (map f xs)"
  by (induction xs) simp_all

text \<open>
  When every stored id is a string that \<open>new ObjectId\<close> leaves as it is, the
  songs of a playlist are returned in the order of \<open>songs\<close>, without the ids that
  no song has.
\<close>

lemma playlists_get_songs_canonical:
  assumes "oidValid rt (JStr pid)" "oidNew rt (JStr pid) = Some oid"
    and "findById oid (playlists database) = Some p"
    and "list_all (\<lambda>x. oidNew rt x = Some (the_str x) \<and> x = JStr (the_str x))
           (playlist_songs (snd p))"
  shows "playlists_get_songs rt database pid
         = (200, Documents (List.map_filter (\<lambda>x. findById (the_str x) (songs database))
                              (playlist_songs (snd p))))"
proof (cases "playlist_songs (snd p) = []")
  case True
  with assms(1-3) show ?thesis
    by (simp add: playlists_get_songs_def List.map_filter_def)
next
  case False
  let ?xs = "playlist_songs (snd p)"
  let ?S = "the_str ` set ?xs"
  let ?found = "filter (\<lambda>song. fst song \<in> ?S) (songs database)"
  have can: "\<And>x. x \<in> set ?xs \<Longrightarrow> oidNew rt x = Some (the_str x) \<and> x = JStr (the_str x)"
    using assms(4) by (simp add: list_all_iff)
  have m1: "map (oidNew rt) ?xs = map (\<lambda>x. Some (the_str x)) ?xs"
    using can by (intro map_cong) auto
  have ids: "sequence (map (oidNew rt) ?xs) = Some (map the_str ?xs)"
    unfolding m1 by (rule sequence_map_Some)
  have look: "(if ?found = [] then Some None
               else map_option (\<lambda>s. findOne (\<lambda>song. fst song = s) ?found) (call_toString x))
              = Some (findById (the_str x) (songs database))" if "x \<in> set ?xs" for x
  proof -
    from can[OF that] have x: "x = JStr (the_str x)" by simp
    have mem: "the_str x \<in> ?S" using that by simp
    have c: "call_toString x = Some (the_str x)"
      by (subst x) (simp add: call_toString_def)
    show ?thesis
    proof (cases "?found = []")
      case True
      with findById_not_found[OF mem True] show ?thesis by simp
    next
      case False
      with findOne_in_found[OF mem, of "songs database"] c show ?thesis by simp
    qed
  qed
  have m2: "map (\<lambda>songId. if ?found = [] then Some None
                        else map_option (\<lambda>s. findOne (\<lambda>song. fst song = s) ?found)
                               (call_toString songId)) ?xs
        = map (\<lambda>x. Some (findById (the_str x) (songs database))) ?xs"
    using look by (intro map_cong) auto
  have looked: "sequence (map (\<lambda>songId. if ?found = [] then Some None
                        else map_option (\<lambda>s. findOne (\<lambda>song. fst song = s) ?found)
                               (call_toString songId)) ?xs)
        = Some (map (\<lambda>x. findById (the_str x) (songs database)) ?xs)"
    unfolding m2 by (rule sequence_map_Some)
  have "map the (filter (\<lambda>song. song \<noteq> None)
                   (map (\<lambda>x. findById (the_str x) (songs database)) ?xs))
        = List.map_filter (\<lambda>x. findById (the_str x) (songs database)) ?xs"
    by (simp add: List.map_filter_def filter_map comp_def)
  with assms(1-3) False ids looked show ?thesis
    by (simp add: playlists_get_songs_def Let_def)
qed

text \<open>
  C6. An id is stored in \<open>songs\<close> as the string the request gave, and the driver
  accepts hexadecimal digits in upper case. After
  \<open>PUT /playlists/:id/songs/507F1F77BCF86CD799439013\<close> on the empty playlist the
  stored id resolves to the song (\<open>new ObjectId\<close> of it is the song's \<open>_id\<close>), and
  \<open>GET /playlists/:id/songs\<close> answers 200 with no song: the handler compares the
  stored string with the lower-case string of the \<open>_id\<close>.
\<close>

theorem playlists_get_songs_upper_case_id:
  "fst (playlists_add_song example_runtime example_db2
          ''507f1f77bcf86cd799439024'' ''507F1F77BCF86CD799439013'')
     = (200, Message ''Song added to playlist successfully'')
   \<and> map (\<lambda>d. (fst d, playlist_songs (snd d)))
         (playlists (snd (playlists_add_song example_runtime example_db2
                            ''507f1f77bcf86cd799439024'' ''507F1F77BCF86CD799439013'')))
       = [(''507f1f77bcf86cd799439014'', [JStr ''507f1f77bcf86cd799439013'']),
          (''507f1f77bcf86cd799439024'', [JStr ''507F1F77BCF86CD799439013''])]
   \<and> oidNew example_runtime (JStr ''507F1F77BCF86CD799439013'')
       = Some ''507f1f77bcf86cd799439013''
   \<and> findById ''507f1f77bcf86cd799439013''
         (songs (snd (playlists_add_song example_runtime example_db2
                        ''507f1f77bcf86cd799439024'' ''507F1F77BCF86CD799439013'')))
       = Some song_S
   \<and> playlists_get_songs example_runtime
         (snd (playlists_add_song example_runtime example_db2
                 ''507f1f77bcf86cd799439024'' ''507F1F77BCF86CD799439013''))
         ''507f1f77bcf86cd799439024''
       = (200, Documents [])
   \<and> playlists_get_songs example_runtime example_db2 ''507f1f77bcf86cd799439014''
       = (200, Documents [song_S])"
  by code_simp

section \<open>The validators\<close>

text \<open>
  What the validators do when they return: a required field that is missing or
  blank gets the message that names it, whatever else is wrong with the record.
\<close>

lemma bind_Some_cases:
  assumes "Option.bind x f = Some r"
  obtains y where "x = Some y" "Some r = f y"
  using assms by (auto simp: Option.bind_eq_Some_conv)

lemma validateArtist_required:
  assumes "validateArtist rt artist = Some errs"
  shows "(blank (artist_name artist) \<longrightarrow>
            ''Artist name is required and must be a non-empty string'' \<in> set errs)
       \<and> (blank (artist_genre artist) \<longrightarrow>
            ''Genre is required and must be a non-empty string'' \<in> set errs)
       \<and> (blank (artist_country artist) \<longrightarrow>
            ''Country is required and must be a non-empty string'' \<in> set errs)
       \<and> (\<not> truthy_num (artist_formed_year artist) \<longrightarrow>
            ''Valid formed year is required (1900 - '' @ show_int (fullYear rt) @ '')''
              \<in> set errs)
       \<and> (\<not> isArray (artist_members artist) \<longrightarrow>
            ''At least one member is required'' \<in> set errs)"
  using assms unfolding validateArtist_def Let_def
proof (rule bind_Some_cases)
  fix y
  assume m: "(case artist_members artist of
           JArr members \<Rightarrow>
             if length members = 0 then Some [''At least one member is required'']
             else if list_all is_string members
             then Some (concat (map member_errors (enumerate 0 members))
                    @ (if length (duplicates (map (\<lambda>m. toLowerCase (trim (the_str m))) members)) > 0
                       then [''Duplicate member names are not allowed'']
                       else []))
             else None
         | _ \<Rightarrow> Some [''At least one member is required'']) = Some y"
  have mem: "\<not> isArray (artist_members artist) \<Longrightarrow>
             ''At least one member is required'' \<in> set y"
    using m by (cases "artist_members artist") auto
  assume "Some errs = Some ((if blank (artist_name artist)
             then [''Artist name is required and must be a non-empty string'']
             else if trim_length (artist_name artist) > 100
             then [''Artist name must be less than 100 characters'']
             else []) @ (if blank (artist_genre artist)
             then [''Genre is required and must be a non-empty string'']
             else if trim_length (artist_genre artist) > 50
             then [''Genre must be less than 50 characters'']
             else []) @ (if blank (artist_country artist)
             then [''Country is required and must be a non-empty string'']
             else if trim_length (artist_country artist) > 50
             then [''Country must be less than 50 characters'']
             else []) @ (if \<not> truthy_num (artist_formed_year artist) \<or> isNaN (artist_formed_year artist)
                \<or> num_lt (artist_formed_year artist) 1900
                \<or> num_gt (artist_formed_year artist) (fullYear rt)
             then [''Valid formed year is required (1900 - '' @ show_int (fullYear rt) @ '')'']
             else []) @ y @ (if truthy (artist_biography artist)
                \<and> (\<not> is_string (artist_biography artist)
                     \<or> str_length (artist_biography artist) > 2000)
             then [''Biography must be a string with maximum 2000 characters'']
             else []) @ (if truthy (artist_website artist)
                \<and> (\<not> is_string (artist_website artist)
                     \<or> \<not> isValidUrl rt (the_str (artist_website artist)))
             then [''Website must be a valid URL'']
             else []) @ (if truthy (artist_social_media artist) \<and> \<not> is_object (artist_social_media artist)
             then [''Social media must be an object'']
             else []))"
  then show ?thesis
    using mem by simp
qed

lemma validateAlbum_required:
  "(blank (album_title album) \<longrightarrow>
      ''Album title is required and must be a non-empty string'' \<in> set (validateAlbum rt album))
   \<and> (\<not> truthy (album_artist_id album) \<longrightarrow>
      ''Valid artist ID is required'' \<in> set (validateAlbum rt album))
   \<and> (\<not> truthy (album_release_date album) \<longrightarrow>
      ''Release date is required'' \<in> set (validateAlbum rt album))
   \<and> (blank (album_genre album) \<longrightarrow>
      ''Genre is required and must be a non-empty string'' \<in> set (validateAlbum rt album))
   \<and> (\<not> truthy_num (album_track_count album) \<longrightarrow>
      ''Valid track count is required (minimum 1)'' \<in> set (validateAlbum rt album))
   \<and> (\<not> truthy_num (album_duration album) \<longrightarrow>
      ''Valid duration in minutes is required (minimum 1)'' \<in> set (validateAlbum rt album))"
  by (simp add: validateAlbum_def)

lemma validateSong_required:
  "(blank (song_title song) \<longrightarrow>
      ''Song title is required and must be a non-empty string'' \<in> set (validateSong rt song))
   \<and> (\<not> truthy (song_album_id song) \<longrightarrow>
      ''Valid album ID is required'' \<in> set (validateSong rt song))
   \<and> (\<not> truthy (song_artist_id song) \<longrightarrow>
      ''Valid artist ID is required'' \<in> set (validateSong rt song))
   \<and> (\<not> truthy_num (song_duration song) \<longrightarrow>
      ''Valid duration in seconds is required (minimum 1)'' \<in> set (validateSong rt song))
   \<and> (blank (song_genre song) \<longrightarrow>
      ''Genre is required and must be a non-empty string'' \<in> set (validateSong rt song))"
  by (simp add: validateSong_def)

lemma validatePlaylist_required:
  assumes "validatePlaylist rt playlist = Some errs"
  shows "(blank (playlist_name playlist) \<longrightarrow>
            ''Playlist name is required and must be a non-empty string'' \<in> set errs)
       \<and> (blank (playlist_creator_name playlist) \<longrightarrow>
            ''Creator name is required and must be a non-empty string'' \<in> set errs)"
  using assms unfolding validatePlaylist_def
  by (rule bind_Some_cases) simp

text \<open>
  C5. \<open>validateArtist\<close> does not return for a record whose \<open>members\<close> has an
  element that is not a string: the member rule adds its message and the
  duplicate check that follows throws. \<open>PUT /artists/:id\<close>, which passes
  \<open>members\<close> as the body has it, answers 500 and no detail.
\<close>

theorem validateArtist_member_not_a_string:
  "artists_put example_runtime example_db ''507f1f77bcf86cd799439011''
     ((artist_body ''abc'')(''members'' := JArr [JNum 5]))
     = ((500, Error ''Internal server error'' ''Failed to update artist''), example_db)
   \<and> validateArtist example_runtime
        (snd artist_A\<lparr>artist_members := JArr [JNum 5]\<rparr>) = None
   \<and> member_errors (0, JNum 5) = [''Member 1 must be a non-empty string'']
   \<and> validateArtist example_runtime
        (snd artist_A\<lparr>artist_members := JArr [JStr '' '']\<rparr>)
       = Some [''Member 1 must be a non-empty string'']"
  by code_simp

theorem validateArtist_member_not_a_string_witness:
  "fst (fst (artists_put example_runtime example_db ''507f1f77bcf86cd799439011''
               ((artist_body ''abc'')(''members'' := JArr [JNum 5])))) = 500
   \<and> validateArtist example_runtime
        (snd artist_A\<lparr>artist_members := JArr [JNum 5]\<rparr>) = None"
  using validateArtist_member_not_a_string by simp

section \<open>Deleting an artist that has albums\<close>

text \<open>
  When an album has the id of the request, written as the request writes it, as
  its \<open>artist_id\<close>, the answer is 400 "Cannot delete artist" and the database is
  the one the request found.
\<close>

lemma artists_delete_blocked:
  assumes "oidValid rt (JStr i)"
    and "d \<in> set (albums database)"
    and "album_artist_id (snd d) = JStr i"
  shows "(\<exists>message. fst (artists_delete rt database i)
                      = (400, Error ''Cannot delete artist'' message))
         \<and> snd (artists_delete rt database i) = database"
proof -
  have "countDocuments (\<lambda>d. field_eq (album_artist_id (snd d)) (JStr i)) (albums database) > 0"
    using assms(2,3) by (intro countDocuments_pos[of d]) (simp_all add: field_eq_def)
  then show ?thesis
    using assms(1) by (simp add: artists_delete_def Let_def)
qed

text \<open>
  C4. The albums of an artist are counted by comparing \<open>artist_id\<close> with the
  string of the request, and the artist is deleted by the \<open>ObjectId\<close> of that
  string. \<open>DELETE /artists/507F1F77BCF86CD799439011\<close>, the id of artist A in upper
  case, is answered 200 and removes the artist, although album T has that artist;
  with the id in lower case the answer is 400. In the same way, after
  \<open>POST /albums\<close> with the \<open>artist_id\<close> in upper case, which is stored as sent,
  \<open>DELETE /artists/507f1f77bcf86cd799439011\<close> is answered 200.
\<close>

theorem artists_delete_upper_case_id:
  "oidValid example_runtime (JStr ''507F1F77BCF86CD799439011'')
   \<and> oidNew example_runtime (JStr ''507F1F77BCF86CD799439011'') = Some (fst artist_A)
   \<and> oidNew example_runtime (album_artist_id (snd album_T)) = Some (fst artist_A)
   \<and> artists_delete example_runtime example_db ''507F1F77BCF86CD799439011''
       = ((200, Message ''Artist deleted successfully''), example_db\<lparr>artists := []\<rparr>)
   \<and> albums (example_db\<lparr>artists := []\<rparr>) = [album_T]
   \<and> artists_delete example_runtime example_db ''507f1f77bcf86cd799439011''
       = ((400, Error ''Cannot delete artist''
                  ''Artist has 1 album(s) associated. Please delete albums first.''), example_db)
   \<and> fst (fst (albums_post example_runtime ''507f1f77bcf86cd799439015''
                  (example_db\<lparr>albums := []\<rparr>) (album_body ''507F1F77BCF86CD799439011''))) = 201
   \<and> fst (artists_delete example_runtime
            (snd (albums_post example_runtime ''507f1f77bcf86cd799439015''
                    (example_db\<lparr>albums := []\<rparr>) (album_body ''507F1F77BCF86CD799439011'')))
            ''507f1f77bcf86cd799439011'')
       = (200, Message ''Artist deleted successfully'')"
  by code_simp

theorem artists_delete_upper_case_id_witness:
  "fst (fst (artists_delete example_runtime example_db ''507F1F77BCF86CD799439011'')) = 200
   \<and> albums (snd (artists_delete example_runtime example_db ''507F1F77BCF86CD799439011''))
       = [album_T]"
  using artists_delete_upper_case_id by simp

end
